theory Spec2Isabelle
  imports Complex_Main "HOL-Library.Product_Lexorder" "HOL-Library.List_Lexorder"
    "HOL-Library.Char_ord" "HOL-Library.Multiset"
begin

section \<open>Strings, numbers and frames\<close>

text \<open>
  A Python \<open>str\<close> is modelled by its UTF-8 bytes, so that \<open>string\<close> equality, the
  substring test and the lexicographic order of \<open>List_Lexorder\<close> agree with Python's
  comparison by code point. The accented letters of the source's labels are therefore
  two bytes each. A missing cell (\<open>None\<close> or \<open>NaN\<close> in the pandas frame) is \<open>None\<close>;
  counts and lengths are Python \<open>int\<close>s, times are rationals.
\<close>

definition CRITICO_MAXIMO :: string where
  "CRITICO_MAXIMO = ''CR'' @ [CHR 0xC3, CHR 0x8D] @ ''TICO M'' @ [CHR 0xC3, CHR 0x81] @ ''XIMO''"

definition CRITICO :: string where
  "CRITICO = ''CR'' @ [CHR 0xC3, CHR 0x8D] @ ''TICO''"

definition ALTO :: string where
  "ALTO = ''ALTO''"

definition MEDIO :: string where
  "MEDIO = ''M'' @ [CHR 0xC3, CHR 0x89] @ ''DIO''"

definition BAIXO :: string where
  "BAIXO = ''BAIXO''"

definition check_mark :: string where
  "check_mark = [CHR 0xE2, CHR 0x9C, CHR 0x85]"

text \<open>Python's \<open>str(n)\<close> for an \<open>int\<close>, as the f-strings of the labels use it.\<close>

fun str_nat :: "nat \<Rightarrow> string" where
  "str_nat n = (if n < 10 then [''0123456789'' ! n]
                else str_nat (n div 10) @ [''0123456789'' ! (n mod 10)])"

declare str_nat.simps [simp del]

definition str_int :: "int \<Rightarrow> string" where
  "str_int i = (if i < 0 then ''-'' @ str_nat (nat (- i)) else str_nat (nat i))"

text \<open>Python's \<open>repr\<close> of a list of plain column names, and \<open>sep.join(parts)\<close>.\<close>

fun join :: "string \<Rightarrow> string list \<Rightarrow> string" where
  "join sep [] = []"
| "join sep [x] = x"
| "join sep (x # y # ys) = x @ sep @ join sep (y # ys)"

definition repr_list :: "string list \<Rightarrow> string" where
  "repr_list cs = ''['' @ join '', '' (map (\<lambda>c. [CHR 0x27] @ c @ [CHR 0x27]) cs) @ '']''"

text \<open>
  A pandas frame: its column names and its rows. A column is present when some input
  dictionary had the key, whatever the cells hold.
\<close>

record 'r frame =
  columns :: "string list"
  rows :: "'r list"

definition fillna :: "'v \<Rightarrow> 'v option \<Rightarrow> 'v" where
  "fillna d c = (case c of None \<Rightarrow> d | Some v \<Rightarrow> v)"

text \<open>What a sheet class writes under its sheet name.\<close>

datatype 'r sheet =
    SuccessSheet string
  | ErrorSheet string
  | DataSheet "string list" "'r list"

datatype py_error = KeyError string

section \<open>BaseSheet\<close>

text \<open>
  Every issue row is a dictionary with the key \<open>url\<close>; the report rows of the
  criticality-sorted categories also carry \<open>problema\<close> and \<open>criticidade\<close>.
\<close>

record row_url =
  url :: string

record issue = row_url +
  problema :: string
  criticidade :: string

text \<open>\<open>df.drop_duplicates(subset=key, keep='first')\<close>: the first row of each key, in order.\<close>

fun drop_duplicates_seen :: "('r \<Rightarrow> 'k) \<Rightarrow> 'k list \<Rightarrow> 'r list \<Rightarrow> 'r list" where
  "drop_duplicates_seen key seen [] = []"
| "drop_duplicates_seen key seen (x # xs) =
     (if key x \<in> set seen then drop_duplicates_seen key seen xs
      else x # drop_duplicates_seen key (key x # seen) xs)"

definition drop_duplicates :: "('r \<Rightarrow> 'k) \<Rightarrow> 'r list \<Rightarrow> 'r list" where
  "drop_duplicates key df = drop_duplicates_seen key [] df"

text \<open>\<open>BaseSheet._sort_by_criticality\<close>. The frames it receives are built from issue
  dictionaries, which always have the columns \<open>criticidade\<close> and \<open>url\<close>.
  \<open>sort_values\<close> on two columns is a stable lexicographic sort.\<close>

definition criticality_order :: "(string \<times> nat) list" where
  "criticality_order =
     [(CRITICO_MAXIMO, 0), (CRITICO, 1), (ALTO, 2), (MEDIO, 3), (BAIXO, 4)]"

definition sort_order :: "string \<Rightarrow> nat" where
  "sort_order c = (case map_of criticality_order c of Some n \<Rightarrow> n | None \<Rightarrow> 5)"

definition sort_by_criticality :: "('a issue_scheme) list \<Rightarrow> ('a issue_scheme) list" where
  "sort_by_criticality df = sort_key (\<lambda>i. (sort_order (criticidade i), url i)) df"

text \<open>\<open>BaseSheet._export_dataframe\<close>; \<open>columns\<close> is \<open>[]\<close> when the caller passes none.
  The data sheet names the columns that are written; its rows are the rows of the frame.
  Writing the sheet is the spreadsheet library's work and is taken to succeed.\<close>

definition export_dataframe ::
  "string \<Rightarrow> string list \<Rightarrow> ('a row_url_scheme) list \<Rightarrow> string list \<Rightarrow> ('a row_url_scheme) sheet" where
  "export_dataframe sheet_name df_columns df cols =
     (if df = [] \<or> df_columns = [] then
        SuccessSheet (check_mark @ '' Nenhum problema encontrado na categoria '' @ sheet_name @ ''!'')
      else
        let available_cols = filter (\<lambda>col. col \<in> set df_columns) cols in
        if cols \<noteq> [] \<and> available_cols = [] then
          ErrorSheet (''Colunas necess'' @ [CHR 0xC3, CHR 0xA1] @ ''rias n'' @ [CHR 0xC3, CHR 0xA3]
                      @ ''o encontradas: '' @ repr_list cols)
        else
          let kept = (if cols \<noteq> [] then available_cols else df_columns) in
          DataSheet kept (if ''url'' \<in> set kept then drop_duplicates url df else df))"

section \<open>The crawl frame\<close>

text \<open>
  One row of the crawl frame. Every record carries its \<open>url\<close> string; any other cell
  may be missing. \<open>row.get(key, default)\<close> yields the default only when the frame has
  no such column, and the (possibly missing) cell otherwise.
\<close>

record mixed_item =
  item_type :: "string option"
  item_url :: "string option"

record page = row_url +
  status_code :: "int option"
  title :: "string option"
  title_length :: "int option"
  title_words :: "int option"
  meta_description :: "string option"
  meta_description_length :: "int option"
  h1_count :: "int option"
  h1_text :: "string option"
  h1_length :: "int option"
  h2_count :: "int option"
  h3_count :: "int option"
  h4_count :: "int option"
  h5_count :: "int option"
  h6_count :: "int option"
  images_count :: "int option"
  images_without_alt :: "int option"
  total_links_count :: "int option"
  canonical_url :: "string option"
  has_viewport :: "bool option"
  response_time :: "rat option"
  content_length :: "int option"
  is_https_page :: "bool option"
  total_mixed_content_count :: "int option"
  active_mixed_content_count :: "int option"
  passive_mixed_content_count :: "int option"
  active_mixed_content_details :: "mixed_item list option"
  passive_mixed_content_details :: "mixed_item list option"
  mixed_content_risk :: "string option"
  http_links_count :: "int option"
  http_forms_count :: "int option"
  images_without_src :: "int option"
  images_with_dimensions :: "int option"
  canonical_is_self :: "bool option"
  has_charset :: "bool option"
  has_favicon :: "bool option"
  meta_robots_noindex :: "bool option"
  meta_robots_nofollow :: "bool option"
  schema_total_count :: "int option"
  og_tags_count :: "int option"
  text_ratio :: "rat option"

definition row_get :: "'r frame \<Rightarrow> string \<Rightarrow> ('r \<Rightarrow> 'v option) \<Rightarrow> 'v \<Rightarrow> 'r \<Rightarrow> 'v option" where
  "row_get df col field d row = (if col \<in> set (columns df) then field row else Some d)"

definition row_get_url :: "('a row_url_scheme) frame \<Rightarrow> 'a row_url_scheme \<Rightarrow> string" where
  "row_get_url df row = (if ''url'' \<in> set (columns df) then url row else [])"

text \<open>Comparisons with a missing number are false, as with \<open>NaN\<close>; an f-string shows it as \<open>nan\<close>.\<close>

definition num_gt :: "('n::linorder) option \<Rightarrow> 'n \<Rightarrow> bool" where
  "num_gt c k = (case c of None \<Rightarrow> False | Some n \<Rightarrow> n > k)"

definition num_lt :: "('n::linorder) option \<Rightarrow> 'n \<Rightarrow> bool" where
  "num_lt c k = (case c of None \<Rightarrow> False | Some n \<Rightarrow> n < k)"

definition num_eq :: "'n option \<Rightarrow> 'n \<Rightarrow> bool" where
  "num_eq c k = (case c of None \<Rightarrow> False | Some n \<Rightarrow> n = k)"

definition fmt_num :: "int option \<Rightarrow> string" where
  "fmt_num c = (case c of None \<Rightarrow> ''nan'' | Some n \<Rightarrow> str_int n)"

text \<open>\<open>BaseSheet._safe_filter\<close>; the caller has computed the row mask \<open>condition\<close> before.\<close>

definition safe_filter :: "'r frame \<Rightarrow> string \<Rightarrow> ('r \<Rightarrow> bool) \<Rightarrow> 'r frame" where
  "safe_filter df column condition =
     (if column \<notin> set (columns df) then \<lparr>columns = [], rows = []\<rparr>
      else \<lparr>columns = columns df, rows = filter condition (rows df)\<rparr>)"

section \<open>TitleProblemsSheet\<close>

text \<open>
  The issue rows of the title sheet. The cells \<open>recomendacao\<close> and \<open>impacto_seo\<close> hold
  advisory text that no later step reads; the rows here hold the other cells.
\<close>

record title_issue = issue +
  issue_title :: "string option"
  issue_title_length :: "int option"
  issue_title_words :: "int option"

definition title_issue_columns :: "string list" where
  "title_issue_columns = [''url'', ''problema'', ''criticidade'', ''title'', ''title_length'',
     ''title_words'', ''recomendacao'', ''impacto_seo'']"

definition titulo :: string where
  "titulo = ''T'' @ [CHR 0xC3, CHR 0xAD] @ ''tulo''"

definition paginas :: string where
  "paginas = ''p'' @ [CHR 0xC3, CHR 0xA1] @ ''ginas''"

definition find_no_title_issues :: "page frame \<Rightarrow> title_issue list" where
  "find_no_title_issues df =
     (if ''title'' \<notin> set (columns df) then []
      else
        let no_title = safe_filter df ''title'' (\<lambda>r. fillna [] (title r) = []) in
        map (\<lambda>row. \<lparr>url = row_get_url no_title row,
                     problema = ''Sem t'' @ [CHR 0xC3, CHR 0xAD] @ ''tulo'',
                     criticidade = CRITICO,
                     issue_title = Some [],
                     issue_title_length = Some 0,
                     issue_title_words = Some 0\<rparr>) (rows no_title))"

definition find_long_title_issues :: "page frame \<Rightarrow> title_issue list" where
  "find_long_title_issues df =
     (if ''title_length'' \<notin> set (columns df) then []
      else
        let long_titles = safe_filter df ''title_length'' (\<lambda>r. fillna 0 (title_length r) > 60) in
        map (\<lambda>row.
               let title_length = row_get long_titles ''title_length'' title_length 0 row in
               \<lparr>url = row_get_url long_titles row,
                problema = titulo @ '' muito longo ('' @ fmt_num title_length @ '' chars)'',
                criticidade = (if num_gt title_length 70 then ALTO else MEDIO),
                issue_title = row_get long_titles ''title'' title [] row,
                issue_title_length = title_length,
                issue_title_words = row_get long_titles ''title_words'' title_words 0 row\<rparr>)
            (rows long_titles))"

definition find_short_title_issues :: "page frame \<Rightarrow> title_issue list" where
  "find_short_title_issues df =
     (if ''title_length'' \<notin> set (columns df) \<or> ''title'' \<notin> set (columns df) then []
      else
        let short_titles = safe_filter df ''title_length''
              (\<lambda>r. fillna 100 (title_length r) < 30 \<and> fillna [] (title r) \<noteq> []) in
        map (\<lambda>row.
               let title_length = row_get short_titles ''title_length'' title_length 0 row in
               \<lparr>url = row_get_url short_titles row,
                problema = titulo @ '' muito curto ('' @ fmt_num title_length @ '' chars)'',
                criticidade = MEDIO,
                issue_title = row_get short_titles ''title'' title [] row,
                issue_title_length = title_length,
                issue_title_words = row_get short_titles ''title_words'' title_words 0 row\<rparr>)
            (rows short_titles))"

text \<open>
  \<open>_find_duplicate_title_issues\<close>: \<open>duplicated(keep=False)\<close> marks every row whose
  title occurs more than once; \<open>groupby\<close> visits the titles in ascending order, each
  group in frame order. \<open>group['url']\<close> raises \<open>KeyError\<close> on a frame without that column.
\<close>

definition find_duplicate_title_issues :: "page frame \<Rightarrow> py_error + title_issue list" where
  "find_duplicate_title_issues df =
     (if ''title'' \<notin> set (columns df) then Inr []
      else
        let non_empty_titles = filter (\<lambda>r. fillna [] (title r) \<noteq> []) (rows df) in
        if non_empty_titles = [] then Inr []
        else
          let duplicate_titles =
                filter (\<lambda>r. 1 < length (filter (\<lambda>q. title q = title r) non_empty_titles))
                       non_empty_titles;
              keys = sort (remdups (map (\<lambda>r. fillna [] (title r)) duplicate_titles))
          in
          if keys = [] then Inr []
          else if ''url'' \<notin> set (columns df) then Inl (KeyError ''url'')
          else Inr (concat (map (\<lambda>t.
                 let group = filter (\<lambda>r. title r = Some t) duplicate_titles;
                     duplicate_count = int (length group)
                 in map (\<lambda>row.
                      \<lparr>url = row_get_url df row,
                       problema = titulo @ '' duplicado ('' @ str_int duplicate_count @ '' ''
                                  @ paginas @ '')'',
                       criticidade = (if duplicate_count > 3 then ALTO else MEDIO),
                       issue_title = Some t,
                       issue_title_length = row_get df ''title_length'' title_length 0 row,
                       issue_title_words = row_get df ''title_words'' title_words 0 row\<rparr>) group)
               keys)))"

text \<open>\<open>_export_consolidated_issues\<close> writes nothing for an empty list (\<open>None\<close>).\<close>

definition title_export_consolidated_issues :: "title_issue list \<Rightarrow> title_issue sheet option" where
  "title_export_consolidated_issues issues =
     (if issues = [] then None
      else
        let issues_df = drop_duplicates (\<lambda>i. (url i, problema i)) issues;
            issues_df = sort_by_criticality issues_df
        in Some (export_dataframe (''Problemas '' @ titulo @ ''s'') title_issue_columns issues_df
                   [''url'', ''problema'', ''criticidade'', ''title'', ''title_length'',
                    ''title_words'', ''recomendacao'', ''impacto_seo'']))"

text \<open>\<open>str(e)\<close> of a \<open>KeyError\<close> is the quoted key.\<close>

fun str_error :: "py_error \<Rightarrow> string" where
  "str_error (KeyError k) = [CHR 0x27] @ k @ [CHR 0x27]"

definition title_create_sheet :: "page frame \<Rightarrow> title_issue sheet option" where
  "title_create_sheet df =
     (let no_title_issues = find_no_title_issues df;
          long_title_issues = find_long_title_issues df;
          short_title_issues = find_short_title_issues df
      in case find_duplicate_title_issues df of
           Inl e \<Rightarrow> Some (ErrorSheet (''Erro: '' @ str_error e))
         | Inr duplicate_title_issues \<Rightarrow>
             let title_issues = no_title_issues @ long_title_issues @ short_title_issues
                                @ duplicate_title_issues
             in if title_issues \<noteq> [] then title_export_consolidated_issues title_issues
                else Some (SuccessSheet (check_mark @ '' Nenhum problema de t''
                            @ [CHR 0xC3, CHR 0xAD] @ ''tulo encontrado!'')))"

section \<open>MetaProblemsSheet\<close>

text \<open>The rows omit the advisory cells \<open>recomendacao\<close>, \<open>impacto_seo\<close> and \<open>exemplo\<close>.\<close>

record meta_issue = issue +
  issue_meta_description :: "string option"
  issue_meta_description_length :: "int option"

definition meta_issue_columns :: "string list" where
  "meta_issue_columns = [''url'', ''problema'', ''criticidade'', ''meta_description'',
     ''meta_description_length'', ''recomendacao'', ''impacto_seo'', ''exemplo'']"

definition find_no_meta_issues :: "page frame \<Rightarrow> meta_issue list" where
  "find_no_meta_issues df =
     (if ''meta_description'' \<notin> set (columns df) then []
      else
        let no_meta = safe_filter df ''meta_description''
              (\<lambda>r. fillna [] (meta_description r) = []) in
        map (\<lambda>row. \<lparr>url = row_get_url no_meta row,
                     problema = ''Sem meta description'',
                     criticidade = ALTO,
                     issue_meta_description = Some [],
                     issue_meta_description_length = Some 0\<rparr>) (rows no_meta))"

definition find_long_meta_issues :: "page frame \<Rightarrow> meta_issue list" where
  "find_long_meta_issues df =
     (if ''meta_description_length'' \<notin> set (columns df) then []
      else
        let long_meta = safe_filter df ''meta_description_length''
              (\<lambda>r. fillna 0 (meta_description_length r) > 160) in
        map (\<lambda>row.
               let meta_length = row_get long_meta ''meta_description_length''
                                   meta_description_length 0 row in
               \<lparr>url = row_get_url long_meta row,
                problema = ''Meta description muito longa ('' @ fmt_num meta_length @ '' chars)'',
                criticidade = (if num_lt meta_length 180 then MEDIO else ALTO),
                issue_meta_description = row_get long_meta ''meta_description'' meta_description [] row,
                issue_meta_description_length = meta_length\<rparr>)
            (rows long_meta))"

definition find_short_meta_issues :: "page frame \<Rightarrow> meta_issue list" where
  "find_short_meta_issues df =
     (if ''meta_description_length'' \<notin> set (columns df)
         \<or> ''meta_description'' \<notin> set (columns df) then []
      else
        let short_meta = safe_filter df ''meta_description_length''
              (\<lambda>r. fillna 200 (meta_description_length r) < 120
                    \<and> fillna [] (meta_description r) \<noteq> []) in
        map (\<lambda>row.
               let meta_length = row_get short_meta ''meta_description_length''
                                   meta_description_length 0 row in
               \<lparr>url = row_get_url short_meta row,
                problema = ''Meta description muito curta ('' @ fmt_num meta_length @ '' chars)'',
                criticidade = BAIXO,
                issue_meta_description = row_get short_meta ''meta_description'' meta_description [] row,
                issue_meta_description_length = meta_length\<rparr>)
            (rows short_meta))"

definition find_duplicate_meta_issues :: "page frame \<Rightarrow> py_error + meta_issue list" where
  "find_duplicate_meta_issues df =
     (if ''meta_description'' \<notin> set (columns df) then Inr []
      else
        let non_empty_meta = filter (\<lambda>r. fillna [] (meta_description r) \<noteq> []) (rows df) in
        if non_empty_meta = [] then Inr []
        else
          let duplicate_meta =
                filter (\<lambda>r. 1 < length (filter (\<lambda>q. meta_description q = meta_description r)
                                                  non_empty_meta))
                       non_empty_meta;
              keys = sort (remdups (map (\<lambda>r. fillna [] (meta_description r)) duplicate_meta))
          in
          if keys = [] then Inr []
          else if ''url'' \<notin> set (columns df) then Inl (KeyError ''url'')
          else Inr (concat (map (\<lambda>meta_desc.
                 let group = filter (\<lambda>r. meta_description r = Some meta_desc) duplicate_meta;
                     duplicate_count = int (length group)
                 in map (\<lambda>row.
                      \<lparr>url = row_get_url df row,
                       problema = ''Meta description duplicada ('' @ str_int duplicate_count
                                  @ '' '' @ paginas @ '')'',
                       criticidade = (if duplicate_count > 2 then ALTO else MEDIO),
                       issue_meta_description = Some meta_desc,
                       issue_meta_description_length =
                         row_get df ''meta_description_length'' meta_description_length 0 row\<rparr>)
                    group)
               keys)))"

definition meta_export_consolidated_issues :: "meta_issue list \<Rightarrow> meta_issue sheet option" where
  "meta_export_consolidated_issues issues =
     (if issues = [] then None
      else
        let issues_df = drop_duplicates (\<lambda>i. (url i, problema i)) issues;
            issues_df = sort_by_criticality issues_df
        in Some (export_dataframe ''Problemas Meta'' meta_issue_columns issues_df
                   [''url'', ''problema'', ''criticidade'', ''meta_description'',
                    ''meta_description_length'', ''recomendacao'', ''impacto_seo'', ''exemplo'']))"

definition meta_create_sheet :: "page frame \<Rightarrow> meta_issue sheet option" where
  "meta_create_sheet df =
     (let no_meta_issues = find_no_meta_issues df;
          long_meta_issues = find_long_meta_issues df;
          short_meta_issues = find_short_meta_issues df
      in case find_duplicate_meta_issues df of
           Inl e \<Rightarrow> Some (ErrorSheet (''Erro: '' @ str_error e))
         | Inr duplicate_meta_issues \<Rightarrow>
             let meta_issues = no_meta_issues @ long_meta_issues @ short_meta_issues
                               @ duplicate_meta_issues
             in if meta_issues \<noteq> [] then meta_export_consolidated_issues meta_issues
                else Some (SuccessSheet (check_mark @ '' Nenhum problema de meta description!'')))"

section \<open>Page-type classifiers\<close>

text \<open>
  \<open>sub in s\<close>, \<open>s.endswith('/')\<close>, \<open>s.count('/')\<close> and \<open>s.lower()\<close>. On the UTF-8 bytes
  \<open>lower\<close> maps the letters A to Z; the bytes of other characters stay as they are
  (none of the keywords below contains a letter that a non-ASCII character lowers to).
\<close>

fun contains :: "string \<Rightarrow> string \<Rightarrow> bool" where
  "contains sub [] = (sub = [])"
| "contains sub (c # cs) = (take (length sub) (c # cs) = sub \<or> contains sub cs)"

definition endswith_slash :: "string \<Rightarrow> bool" where
  "endswith_slash s = (s \<noteq> [] \<and> last s = CHR ''/'')"

definition count_slash :: "string \<Rightarrow> nat" where
  "count_slash s = length (filter (\<lambda>c. c = CHR ''/'') s)"

definition lower_char :: "char \<Rightarrow> char" where
  "lower_char c = (case map_of (zip ''ABCDEFGHIJKLMNOPQRSTUVWXYZ'' ''abcdefghijklmnopqrstuvwxyz'') c of
                     Some l \<Rightarrow> l | None \<Rightarrow> c)"

definition lower :: "string \<Rightarrow> string" where
  "lower s = map lower_char s"

definition Conteudo :: string where
  "Conteudo = ''Conte'' @ [CHR 0xC3, CHR 0xBA] @ ''do''"

text \<open>\<open>H1H2MissingSheet._detect_page_type\<close>\<close>

definition h1h2_detect_page_type :: "('a row_url_scheme) frame \<Rightarrow> 'a row_url_scheme \<Rightarrow> string" where
  "h1h2_detect_page_type df row =
     (let url = lower (row_get_url df row) in
      if contains ''/blog/'' url \<or> contains ''/artigo/'' url then ''Blog/Artigo''
      else if contains ''/produto/'' url \<or> contains ''/product/'' url then ''Produto''
      else if contains ''/categoria/'' url \<or> contains ''/category/'' url then ''Categoria''
      else if contains ''/sobre'' url \<or> contains ''/about'' url then ''Institucional''
      else if contains ''/contato'' url \<or> contains ''/contact'' url then ''Contato''
      else if endswith_slash url \<and> count_slash url \<le> 3 then ''Homepage''
      else Conteudo)"

text \<open>\<open>TechnicalProblemsSheet._detect_page_type\<close>\<close>

definition technical_detect_page_type :: "('a row_url_scheme) frame \<Rightarrow> 'a row_url_scheme \<Rightarrow> string" where
  "technical_detect_page_type df row =
     (let url = lower (row_get_url df row) in
      if contains ''/blog/'' url \<or> contains ''/artigo/'' url \<or> contains ''/post/'' url
        then ''Blog/Artigo''
      else if contains ''/produto/'' url \<or> contains ''/product/'' url then ''Produto''
      else if contains ''/categoria/'' url \<or> contains ''/category/'' url then ''Categoria''
      else if contains ''/sobre'' url \<or> contains ''/about'' url then ''Institucional''
      else if contains ''/contato'' url \<or> contains ''/contact'' url then ''Contato''
      else if endswith_slash url \<and> count_slash url \<le> 3 then ''Homepage''
      else Conteudo)"

text \<open>\<open>ImageProblemsSheet._detect_page_type\<close>\<close>

definition image_detect_page_type :: "('a row_url_scheme) frame \<Rightarrow> 'a row_url_scheme \<Rightarrow> string" where
  "image_detect_page_type df row =
     (let url = lower (row_get_url df row) in
      if contains ''/blog/'' url \<or> contains ''/artigo/'' url then ''Blog/Artigo''
      else if contains ''/produto/'' url \<or> contains ''/product/'' url then ''Produto''
      else if contains ''/categoria/'' url \<or> contains ''/category/'' url then ''Categoria''
      else if contains ''/galeria/'' url \<or> contains ''/gallery/'' url then ''Galeria''
      else if contains ''/sobre'' url \<or> contains ''/about'' url then ''Institucional''
      else Conteudo)"

text \<open>\<open>PerformanceSheet._detect_page_type\<close>\<close>

definition performance_detect_page_type :: "('a row_url_scheme) frame \<Rightarrow> 'a row_url_scheme \<Rightarrow> string" where
  "performance_detect_page_type df row =
     (let url = lower (row_get_url df row) in
      if contains ''/blog/'' url \<or> contains ''/artigo/'' url then ''Blog/Artigo''
      else if contains ''/produto/'' url \<or> contains ''/product/'' url then ''Produto''
      else if contains ''/categoria/'' url \<or> contains ''/category/'' url then ''Categoria''
      else if endswith_slash url \<and> count_slash url \<le> 3 then ''Homepage''
      else Conteudo)"

section \<open>HeadingProblemsSheet\<close>

text \<open>The rows omit the advisory cells \<open>recomendacao\<close> and \<open>impacto_seo\<close>.\<close>

record heading_issue = issue +
  issue_h1_count :: "int option"
  issue_h1_text :: "string option"
  issue_h2_count :: "int option"
  issue_h3_count :: "int option"
  estrutura_headings :: string

definition heading_issue_columns :: "string list" where
  "heading_issue_columns = [''url'', ''problema'', ''criticidade'', ''h1_count'', ''h1_text'',
     ''h2_count'', ''h3_count'', ''estrutura_headings'', ''recomendacao'', ''impacto_seo'']"

definition get_heading_structure :: "page frame \<Rightarrow> page \<Rightarrow> string" where
  "get_heading_structure df row =
     (let structure_parts = concat (map (\<lambda>(level, field).
              let count = row_get df (''h'' @ level @ ''_count'') field 0 row in
              if num_gt count 0 then [''H'' @ level @ '':'' @ fmt_num count] else [])
            [(''1'', h1_count), (''2'', h2_count), (''3'', h3_count),
             (''4'', h4_count), (''5'', h5_count), (''6'', h6_count)])
      in if structure_parts \<noteq> [] then join '' | '' structure_parts else ''Sem headings'')"

definition heading_find_no_h1_issues :: "page frame \<Rightarrow> heading_issue list" where
  "heading_find_no_h1_issues df =
     (if ''h1_count'' \<notin> set (columns df) then []
      else
        let no_h1 = safe_filter df ''h1_count'' (\<lambda>r. fillna 0 (h1_count r) = 0) in
        map (\<lambda>row. \<lparr>url = row_get_url no_h1 row,
                     problema = ''Sem H1'',
                     criticidade = CRITICO,
                     issue_h1_count = Some 0,
                     issue_h1_text = Some [],
                     issue_h2_count = row_get no_h1 ''h2_count'' h2_count 0 row,
                     issue_h3_count = row_get no_h1 ''h3_count'' h3_count 0 row,
                     estrutura_headings = get_heading_structure no_h1 row\<rparr>) (rows no_h1))"

definition find_multiple_h1_issues :: "page frame \<Rightarrow> heading_issue list" where
  "find_multiple_h1_issues df =
     (if ''h1_count'' \<notin> set (columns df) then []
      else
        let multiple_h1 = safe_filter df ''h1_count'' (\<lambda>r. fillna 0 (h1_count r) > 1) in
        map (\<lambda>row.
               let h1_count = row_get multiple_h1 ''h1_count'' h1_count 0 row in
               \<lparr>url = row_get_url multiple_h1 row,
                problema = ''M'' @ [CHR 0xC3, CHR 0xBA] @ ''ltiplos H1 ('' @ fmt_num h1_count @ '' H1s)'',
                criticidade = ALTO,
                issue_h1_count = h1_count,
                issue_h1_text = row_get multiple_h1 ''h1_text'' h1_text [] row,
                issue_h2_count = row_get multiple_h1 ''h2_count'' h2_count 0 row,
                issue_h3_count = row_get multiple_h1 ''h3_count'' h3_count 0 row,
                estrutura_headings = get_heading_structure multiple_h1 row\<rparr>)
            (rows multiple_h1))"

definition heading_find_no_h2_issues :: "page frame \<Rightarrow> heading_issue list" where
  "heading_find_no_h2_issues df =
     (if ''h2_count'' \<notin> set (columns df) then []
      else
        let no_h2 = safe_filter df ''h2_count'' (\<lambda>r. fillna 0 (h2_count r) = 0) in
        concat (map (\<lambda>row.
               let h1_count = row_get no_h2 ''h1_count'' h1_count 0 row in
               if num_gt h1_count 0 then
                 [\<lparr>url = row_get_url no_h2 row,
                   problema = ''Sem H2 (estrutura incompleta)'',
                   criticidade = MEDIO,
                   issue_h1_count = h1_count,
                   issue_h1_text = row_get no_h2 ''h1_text'' h1_text [] row,
                   issue_h2_count = Some 0,
                   issue_h3_count = row_get no_h2 ''h3_count'' h3_count 0 row,
                   estrutura_headings = get_heading_structure no_h2 row\<rparr>]
               else [])
            (rows no_h2)))"

definition find_hierarchy_issues :: "page frame \<Rightarrow> heading_issue list" where
  "find_hierarchy_issues df =
     concat (map (\<lambda>row.
        let url = row_get_url df row;
            h1_count = row_get df ''h1_count'' h1_count 0 row;
            h2_count = row_get df ''h2_count'' h2_count 0 row;
            h3_count = row_get df ''h3_count'' h3_count 0 row;
            h4_count = row_get df ''h4_count'' h4_count 0 row;
            h5_count = row_get df ''h5_count'' h5_count 0 row;
            h6_count = row_get df ''h6_count'' h6_count 0 row;
            hierarchy_problems =
                (if num_gt h3_count 0 \<and> num_eq h2_count 0 then [''H3 sem H2''] else [])
              @ (if num_gt h4_count 0 \<and> num_eq h3_count 0 then [''H4 sem H3''] else [])
              @ (if num_gt h5_count 0 \<and> num_eq h4_count 0 then [''H5 sem H4''] else [])
              @ (if num_gt h6_count 0 \<and> num_eq h5_count 0 then [''H6 sem H5''] else [])
        in if hierarchy_problems \<noteq> [] then
             [\<lparr>url = url,
               problema = ''Hierarquia quebrada: '' @ join '', '' hierarchy_problems,
               criticidade = MEDIO,
               issue_h1_count = h1_count,
               issue_h1_text = row_get df ''h1_text'' h1_text [] row,
               issue_h2_count = h2_count,
               issue_h3_count = h3_count,
               estrutura_headings = get_heading_structure df row\<rparr>]
           else [])
      (rows df))"

definition find_long_h1_issues :: "page frame \<Rightarrow> heading_issue list" where
  "find_long_h1_issues df =
     (if ''h1_length'' \<notin> set (columns df) then []
      else
        let long_h1 = safe_filter df ''h1_length'' (\<lambda>r. fillna 0 (h1_length r) > 70) in
        map (\<lambda>row.
               let h1_length = row_get long_h1 ''h1_length'' h1_length 0 row in
               \<lparr>url = row_get_url long_h1 row,
                problema = ''H1 muito longo ('' @ fmt_num h1_length @ '' chars)'',
                criticidade = BAIXO,
                issue_h1_count = row_get long_h1 ''h1_count'' h1_count 0 row,
                issue_h1_text = row_get long_h1 ''h1_text'' h1_text [] row,
                issue_h2_count = row_get long_h1 ''h2_count'' h2_count 0 row,
                issue_h3_count = row_get long_h1 ''h3_count'' h3_count 0 row,
                estrutura_headings = get_heading_structure long_h1 row\<rparr>)
            (rows long_h1))"

definition heading_export_consolidated_issues :: "heading_issue list \<Rightarrow> heading_issue sheet option" where
  "heading_export_consolidated_issues issues =
     (if issues = [] then None
      else
        let issues_df = drop_duplicates (\<lambda>i. (url i, problema i)) issues;
            issues_df = sort_by_criticality issues_df
        in Some (export_dataframe ''Problemas Headings'' heading_issue_columns issues_df
                   [''url'', ''problema'', ''criticidade'', ''h1_count'', ''h1_text'',
                    ''h2_count'', ''h3_count'', ''estrutura_headings'', ''recomendacao'',
                    ''impacto_seo'']))"

definition heading_create_sheet :: "page frame \<Rightarrow> heading_issue sheet option" where
  "heading_create_sheet df =
     (let heading_issues = heading_find_no_h1_issues df @ find_multiple_h1_issues df
            @ heading_find_no_h2_issues df @ find_hierarchy_issues df @ find_long_h1_issues df
      in if heading_issues \<noteq> [] then heading_export_consolidated_issues heading_issues
         else Some (SuccessSheet (check_mark @ '' Estrutura de headings adequada!'')))"

section \<open>H1H2MissingSheet\<close>

text \<open>
  The rows of the sheet \<open>H1 H2 Ausentes\<close>: the label is in the column \<open>problema_h1_h2\<close>,
  and \<open>prioridade\<close> is the sort key. The column \<open>criticidade\<close> is the field
  \<open>criticidade_h1_h2\<close> here; the advisory cells \<open>action_required\<close>, \<open>business_impact\<close>
  and \<open>technical_fix\<close> are omitted.
\<close>

record h1h2_issue = row_url +
  problema_h1_h2 :: string
  criticidade_h1_h2 :: string
  prioridade :: int
  h1h2_h1_count :: "int option"
  h1h2_h1_text :: "string option"
  h1h2_h2_count :: "int option"
  h1h2_title :: "string option"
  page_type :: string

definition h1h2_issue_columns :: "string list" where
  "h1h2_issue_columns = [''url'', ''problema_h1_h2'', ''criticidade'', ''prioridade'', ''h1_count'',
     ''h1_text'', ''h2_count'', ''title'', ''page_type'', ''action_required'', ''business_impact'',
     ''technical_fix'']"

definition find_no_h1_issues :: "page frame \<Rightarrow> h1h2_issue list" where
  "find_no_h1_issues df =
     (if ''h1_count'' \<notin> set (columns df) then []
      else
        let no_h1 = safe_filter df ''h1_count'' (\<lambda>r. fillna 0 (h1_count r) = 0) in
        map (\<lambda>row. \<lparr>url = row_get_url no_h1 row,
                     problema_h1_h2 = ''Sem H1'',
                     criticidade_h1_h2 = CRITICO,
                     prioridade = 1,
                     h1h2_h1_count = Some 0,
                     h1h2_h1_text = Some [],
                     h1h2_h2_count = row_get no_h1 ''h2_count'' h2_count 0 row,
                     h1h2_title = row_get no_h1 ''title'' title [] row,
                     page_type = h1h2_detect_page_type no_h1 row\<rparr>) (rows no_h1))"

definition find_no_h2_issues :: "page frame \<Rightarrow> h1h2_issue list" where
  "find_no_h2_issues df =
     (if ''h2_count'' \<notin> set (columns df) then []
      else
        let no_h2 = safe_filter df ''h2_count'' (\<lambda>r. fillna 0 (h2_count r) = 0) in
        concat (map (\<lambda>row.
               let h1_count = row_get no_h2 ''h1_count'' h1_count 0 row in
               if num_gt h1_count 0 then
                 [\<lparr>url = row_get_url no_h2 row,
                   problema_h1_h2 = ''Sem H2'',
                   criticidade_h1_h2 = ALTO,
                   prioridade = 2,
                   h1h2_h1_count = h1_count,
                   h1h2_h1_text = row_get no_h2 ''h1_text'' h1_text [] row,
                   h1h2_h2_count = Some 0,
                   h1h2_title = row_get no_h2 ''title'' title [] row,
                   page_type = h1h2_detect_page_type no_h2 row\<rparr>]
               else [])
            (rows no_h2)))"

definition find_no_h1_h2_issues :: "page frame \<Rightarrow> h1h2_issue list" where
  "find_no_h1_h2_issues df =
     (if ''h1_count'' \<notin> set (columns df) \<or> ''h2_count'' \<notin> set (columns df) then []
      else
        let no_h1_h2 = safe_filter df ''h1_count''
              (\<lambda>r. fillna 0 (h1_count r) = 0 \<and> fillna 0 (h2_count r) = 0) in
        map (\<lambda>row. \<lparr>url = row_get_url no_h1_h2 row,
                     problema_h1_h2 = ''Sem H1 E sem H2'',
                     criticidade_h1_h2 = CRITICO_MAXIMO,
                     prioridade = 0,
                     h1h2_h1_count = Some 0,
                     h1h2_h1_text = Some [],
                     h1h2_h2_count = Some 0,
                     h1h2_title = row_get no_h1_h2 ''title'' title [] row,
                     page_type = h1h2_detect_page_type no_h1_h2 row\<rparr>) (rows no_h1_h2))"

text \<open>\<open>_export_consolidated_issues\<close>: the duplicates on url are dropped before the sort.\<close>

definition h1h2_export_consolidated_issues :: "h1h2_issue list \<Rightarrow> h1h2_issue sheet option" where
  "h1h2_export_consolidated_issues issues =
     (if issues = [] then None
      else
        let issues_df = drop_duplicates url issues;
            issues_df = sort_key (\<lambda>i. (prioridade i, url i)) issues_df
        in Some (export_dataframe ''H1 H2 Ausentes'' h1h2_issue_columns issues_df
                   [''url'', ''problema_h1_h2'', ''criticidade'', ''h1_count'', ''h2_count'',
                    ''h1_text'', ''title'', ''page_type'', ''action_required'',
                    ''business_impact'', ''technical_fix'']))"

definition h1h2_create_sheet :: "page frame \<Rightarrow> h1h2_issue sheet option" where
  "h1h2_create_sheet df =
     (let h1_h2_issues = find_no_h1_issues df @ find_no_h2_issues df @ find_no_h1_h2_issues df
      in if h1_h2_issues \<noteq> [] then h1h2_export_consolidated_issues h1_h2_issues
         else Some (SuccessSheet (check_mark @ '' Estrutura de H1/H2 adequada!'')))"

section \<open>Shapes of the heading issues\<close>

text \<open>
  The two shapes a row of the heading rule pack can have: the missing-H1 row, the only one
  graded CRITICO, or a row with another label graded ALTO, MEDIO or BAIXO.
\<close>

definition heading_row_ok :: "heading_issue \<Rightarrow> bool" where
  "heading_row_ok i \<longleftrightarrow>
     (problema i = ''Sem H1'' \<and> criticidade i = CRITICO)
     \<or> (problema i \<noteq> ''Sem H1'' \<and> problema i \<noteq> ''Sem H1 E sem H2''
         \<and> (criticidade i = ALTO \<or> criticidade i = MEDIO \<or> criticidade i = BAIXO))"

section \<open>TechnicalProblemsSheet and PerformanceSheet: consolidation\<close>

text \<open>
  The rows of the technical sheet, without the advisory cells \<open>impacto_seo\<close>,
  \<open>action_required\<close> and \<open>technical_fix\<close>. \<open>sort_values\<close> with
  \<open>ascending=[False, True]\<close> is a stable sort, descending in \<open>priority_score\<close> and then
  ascending in the criticality label as a string.
\<close>

record technical_issue = issue +
  categoria :: string
  valor_atual :: "string option"
  valor_esperado :: string
  priority_score :: int

definition technical_issue_columns :: "string list" where
  "technical_issue_columns = [''url'', ''problema'', ''criticidade'', ''categoria'', ''valor_atual'',
     ''valor_esperado'', ''impacto_seo'', ''action_required'', ''technical_fix'', ''priority_score'']"

definition technical_export_consolidated_issues ::
  "technical_issue list \<Rightarrow> technical_issue sheet option" where
  "technical_export_consolidated_issues issues =
     (if issues = [] then None
      else
        let issues_df = drop_duplicates (\<lambda>i. (url i, problema i)) issues;
            issues_df = sort_key (\<lambda>i. (- priority_score i, criticidade i)) issues_df
        in Some (export_dataframe (''Problemas T'' @ [CHR 0xC3, CHR 0xA9] @ ''cnicos'')
                   technical_issue_columns issues_df
                   [''url'', ''problema'', ''criticidade'', ''categoria'', ''valor_atual'',
                    ''valor_esperado'', ''impacto_seo'', ''action_required'', ''technical_fix'']))"

text \<open>
  The rows of the performance sheet, without the advisory cells. A missing
  \<open>response_time\<close> sorts last, as \<open>NaN\<close> does in \<open>sort_values\<close>.
\<close>

record performance_issue = issue +
  perf_categoria :: string
  perf_response_time :: "rat option"
  perf_content_length :: "int option"
  content_length_mb :: "rat option"
  perf_page_type :: string
  perf_priority_score :: int

definition performance_issue_columns :: "string list" where
  "performance_issue_columns = [''url'', ''problema'', ''criticidade'', ''categoria'',
     ''response_time'', ''content_length'', ''content_length_mb'', ''page_type'',
     ''core_web_vitals_impact'', ''user_experience_impact'', ''seo_impact'', ''action_required'',
     ''technical_recommendations'', ''business_impact'', ''priority_score'']"

definition bytes_to_mb :: "int option \<Rightarrow> rat option" where
  "bytes_to_mb bytes_value =
     (case bytes_value of
        None \<Rightarrow> None
      | Some b \<Rightarrow> if b \<noteq> 0 then Some (of_int b / (1024 * 1024)) else Some 0)"

definition num_add :: "int option \<Rightarrow> int option \<Rightarrow> int option" where
  "num_add a b = (case (a, b) of (Some x, Some y) \<Rightarrow> Some (x + y) | _ \<Rightarrow> None)"

definition find_resource_heavy_issues :: "page frame \<Rightarrow> performance_issue list" where
  "find_resource_heavy_issues df =
     concat (map (\<lambda>row.
        let url = row_get_url df row;
            images_count = row_get df ''images_count'' images_count 0 row;
            total_links = row_get df ''total_links_count'' total_links_count 0 row;
            total_resources = num_add images_count total_links;
            resource_problems =
                (if num_gt images_count 50 then [fmt_num images_count @ '' imagens''] else [])
              @ (if num_gt total_links 200 then [fmt_num total_links @ '' links''] else [])
        in if resource_problems \<noteq> [] \<and> num_gt total_resources 100 then
             [\<lparr>url = url,
               problema = ''Muitos recursos: '' @ join '', '' resource_problems,
               criticidade = (if num_gt total_resources 300 then ALTO else MEDIO),
               perf_categoria = ''Recursos'',
               perf_response_time = row_get df ''response_time'' response_time 0 row,
               perf_content_length = row_get df ''content_length'' content_length 0 row,
               content_length_mb = bytes_to_mb (row_get df ''content_length'' content_length 0 row),
               perf_page_type = performance_detect_page_type df row,
               perf_priority_score = 6\<rparr>]
           else [])
      (rows df))"

definition response_time_desc :: "rat option \<Rightarrow> bool \<times> rat" where
  "response_time_desc t = (case t of None \<Rightarrow> (True, 0) | Some v \<Rightarrow> (False, - v))"

definition performance_export_consolidated_issues ::
  "performance_issue list \<Rightarrow> performance_issue sheet option" where
  "performance_export_consolidated_issues issues =
     (if issues = [] then None
      else
        let issues_df = drop_duplicates (\<lambda>i. (url i, problema i)) issues;
            issues_df = sort_key (\<lambda>i. (- perf_priority_score i,
                                        response_time_desc (perf_response_time i))) issues_df
        in Some (export_dataframe ''Problemas Performance'' performance_issue_columns issues_df
                   [''url'', ''problema'', ''criticidade'', ''categoria'', ''response_time'',
                    ''content_length_mb'', ''page_type'', ''core_web_vitals_impact'',
                    ''user_experience_impact'', ''seo_impact'', ''action_required'',
                    ''technical_recommendations'', ''business_impact'']))"

section \<open>ImageProblemsSheet: consolidation\<close>

text \<open>
  \<open>ImageProblemsSheet._export_consolidated_issues\<close>. The image rules put different keys
  into their issue dictionaries, so the columns of the issue frame (\<open>df_columns\<close>, the
  union of the keys) depend on the rules that fired; the rows are issue rows with further
  cells.
\<close>

definition image_export_consolidated_issues ::
  "string list \<Rightarrow> ('a issue_scheme) list \<Rightarrow> ('a issue_scheme) sheet option" where
  "image_export_consolidated_issues df_columns issues =
     (if issues = [] then None
      else
        let issues_df = drop_duplicates (\<lambda>i. (url i, problema i)) issues;
            issues_df = sort_by_criticality issues_df
        in Some (export_dataframe ''Problemas Imagens'' df_columns issues_df
                   [''url'', ''problema'', ''criticidade'', ''images_count'', ''images_without_alt'',
                    ''images_with_alt'', ''alt_coverage'', ''page_type'', ''accessibility_impact'',
                    ''seo_impact'', ''action_required'', ''technical_fix'']))"

section \<open>MixedContentSheet\<close>

text \<open>
  The rows of the mixed-content sheet, without the advisory cells \<open>impacto\<close> and
  \<open>solucao\<close>. In both rules the row mask is built from \<open>df[column]\<close> before
  \<open>_safe_filter\<close> is entered, so a frame without the column raises \<open>KeyError\<close> there.
\<close>

record mixed_issue = row_url +
  tipo_mixed_content :: string
  tipo_recurso :: string
  url_http :: string
  risco :: "string option"

definition upper_char :: "char \<Rightarrow> char" where
  "upper_char c = (case map_of (zip ''abcdefghijklmnopqrstuvwxyz'' ''ABCDEFGHIJKLMNOPQRSTUVWXYZ'') c of
                     Some l \<Rightarrow> l | None \<Rightarrow> c)"

definition upper :: "string \<Rightarrow> string" where
  "upper s = map upper_char s"

definition risco_critico :: string where
  "risco_critico = CRITICO @ '' - Bloqueado pelo browser''"

definition risco_medio_cadeado :: string where
  "risco_medio_cadeado = MEDIO @ '' - Cadeado quebrado''"

definition risco_medio_dados :: string where
  "risco_medio_dados = MEDIO @ '' - Dados n'' @ [CHR 0xC3, CHR 0xA3] @ ''o criptografados''"

definition risco_baixo :: string where
  "risco_baixo = ''BAIXO - N'' @ [CHR 0xC3, CHR 0xA3] @ ''o '' @ [CHR 0xC3, CHR 0xA9] @ '' mixed content''"

text \<open>A cell holding a list is truthy when the list is non-empty; a missing cell is
  \<open>NaN\<close>, which is truthy but no list.\<close>

definition details_items :: "mixed_item list option \<Rightarrow> mixed_item list" where
  "details_items d = (case d of None \<Rightarrow> [] | Some items \<Rightarrow> items)"

definition details_falsy :: "mixed_item list option \<Rightarrow> bool" where
  "details_falsy d = (d = Some [])"

definition process_https_issues :: "page frame \<Rightarrow> py_error + mixed_issue list" where
  "process_https_issues df =
     (if ''is_https_page'' \<notin> set (columns df) then Inl (KeyError ''is_https_page'')
      else if ''total_mixed_content_count'' \<notin> set (columns df)
        then Inl (KeyError ''total_mixed_content_count'')
      else
        let https_pages = safe_filter df ''is_https_page''
              (\<lambda>r. fillna False (is_https_page r) = True
                    \<and> fillna 0 (total_mixed_content_count r) > 0)
        in Inr (concat (map (\<lambda>row.
             let url = row_get_url https_pages row;
                 active_count = row_get https_pages ''active_mixed_content_count''
                                  active_mixed_content_count 0 row;
                 passive_count = row_get https_pages ''passive_mixed_content_count''
                                   passive_mixed_content_count 0 row;
                 active_details = row_get https_pages ''active_mixed_content_details''
                                    active_mixed_content_details [] row;
                 passive_details = row_get https_pages ''passive_mixed_content_details''
                                     passive_mixed_content_details [] row
             in map (\<lambda>item. \<lparr>url = url,
                               tipo_mixed_content = ''ACTIVE (Cr'' @ [CHR 0xC3, CHR 0xAD] @ ''tico)'',
                               tipo_recurso = upper (fillna ''unknown'' (item_type item)),
                               url_http = fillna [] (item_url item),
                               risco = Some risco_critico\<rparr>) (details_items active_details)
              @ map (\<lambda>item. \<lparr>url = url,
                               tipo_mixed_content = ''PASSIVE (Aviso)'',
                               tipo_recurso = upper (fillna ''unknown'' (item_type item)),
                               url_http = fillna [] (item_url item),
                               risco = Some risco_medio_cadeado\<rparr>) (details_items passive_details)
              @ (if (details_falsy active_details \<and> num_gt active_count 0)
                    \<or> (details_falsy passive_details \<and> num_gt passive_count 0)
                 then [\<lparr>url = url,
                         tipo_mixed_content = ''MIXED CONTENT'',
                         tipo_recurso = ''M'' @ [CHR 0xC3, CHR 0x9A] @ ''LTIPLOS'',
                         url_http = fmt_num active_count @ '' active + '' @ fmt_num passive_count
                                    @ '' passive'',
                         risco = row_get https_pages ''mixed_content_risk'' mixed_content_risk
                                   ''DESCONHECIDO'' row\<rparr>]
                 else []))
           (rows https_pages))))"

definition process_http_issues :: "page frame \<Rightarrow> py_error + mixed_issue list" where
  "process_http_issues df =
     (if ''http_links_count'' \<notin> set (columns df) then Inl (KeyError ''http_links_count'')
      else if ''http_forms_count'' \<notin> set (columns df) then Inl (KeyError ''http_forms_count'')
      else
        let http_pages = safe_filter df ''http_links_count''
              (\<lambda>r. fillna 0 (http_links_count r) > 0 \<or> fillna 0 (http_forms_count r) > 0)
        in Inr (concat (map (\<lambda>row.
             let url = row_get_url http_pages row;
                 links_count = row_get http_pages ''http_links_count'' http_links_count 0 row;
                 forms_count = row_get http_pages ''http_forms_count'' http_forms_count 0 row
             in (if num_gt links_count 0
                 then [\<lparr>url = url,
                         tipo_mixed_content = ''HTTP LINKS'',
                         tipo_recurso = ''LINKS'',
                         url_http = fmt_num links_count @ '' links HTTP'',
                         risco = Some risco_baixo\<rparr>]
                 else [])
              @ (if num_gt forms_count 0
                 then [\<lparr>url = url,
                         tipo_mixed_content = ''HTTP FORMS'',
                         tipo_recurso = ''FORMS'',
                         url_http = fmt_num forms_count @ '' forms HTTP'',
                         risco = Some risco_medio_dados\<rparr>]
                 else []))
           (rows http_pages))))"

definition risk_order :: "(string \<times> nat) list" where
  "risk_order = [(risco_critico, 1), (risco_medio_cadeado, 2), (risco_medio_dados, 3),
                 (risco_baixo, 4)]"

definition risk_sort_order :: "string option \<Rightarrow> nat" where
  "risk_sort_order r =
     (case r of None \<Rightarrow> 5
      | Some s \<Rightarrow> (case map_of risk_order s of Some n \<Rightarrow> n | None \<Rightarrow> 5))"

definition export_issues :: "mixed_issue list \<Rightarrow> mixed_issue sheet" where
  "export_issues issues =
     (let issues_df = drop_duplicates (\<lambda>i. (url i, tipo_mixed_content i, url_http i)) issues;
          issues_df = sort_key (\<lambda>i. (risk_sort_order (risco i), url i)) issues_df
      in DataSheet [''url'', ''tipo_mixed_content'', ''tipo_recurso'', ''url_http'', ''risco'',
                    ''impacto'', ''solucao''] issues_df)"

definition mixed_create_sheet :: "page frame \<Rightarrow> mixed_issue sheet" where
  "mixed_create_sheet df =
     (case process_https_issues df of
        Inl e \<Rightarrow> ErrorSheet (''Erro: '' @ str_error e)
      | Inr https_issues \<Rightarrow>
          (case process_http_issues df of
             Inl e \<Rightarrow> ErrorSheet (''Erro: '' @ str_error e)
           | Inr http_issues \<Rightarrow>
               let mixed_content_issues = https_issues @ http_issues in
               if mixed_content_issues \<noteq> [] then export_issues mixed_content_issues
               else SuccessSheet (check_mark @ '' Nenhum problema de Mixed Content encontrado!''
                      @ [CHR 0x0A, CHR 0xF0, CHR 0x9F, CHR 0x94, CHR 0x92]
                      @ '' Todas as p'' @ [CHR 0xC3, CHR 0xA1] @ ''ginas HTTPS est''
                      @ [CHR 0xC3, CHR 0xA3] @ ''o seguras'')))"

section \<open>SummarySheet\<close>

text \<open>
  A row of the summary: label, count and percentage text. Two library results are
  parameters: \<open>value_counts\<close> gives \<open>df['status_code'].value_counts()\<close> as rendered
  status and count, in the library's order, and \<open>percent count total\<close> is the float
  formatting \<open>f"{count/total*100:.1f}%"\<close>.
\<close>

type_synonym summary_row = "string \<times> nat \<times> string"

definition count_row :: "(nat \<Rightarrow> nat \<Rightarrow> string) \<Rightarrow> string \<Rightarrow> nat \<Rightarrow> nat \<Rightarrow> summary_row list" where
  "count_row percent label n total_urls =
     (if n > 0 then [(label, n, percent n total_urls)] else [])"

definition add_status_codes_stats ::
  "(page frame \<Rightarrow> (string \<times> nat) list) \<Rightarrow> (nat \<Rightarrow> nat \<Rightarrow> string) \<Rightarrow> page frame \<Rightarrow> nat
   \<Rightarrow> summary_row list" where
  "add_status_codes_stats value_counts percent df total_urls =
     (if ''status_code'' \<notin> set (columns df) then []
      else map (\<lambda>(status, count). (''Status '' @ status, count, percent count total_urls))
               (take 10 (value_counts df)))"

definition add_seo_problems_stats ::
  "(nat \<Rightarrow> nat \<Rightarrow> string) \<Rightarrow> page frame \<Rightarrow> nat \<Rightarrow> summary_row list" where
  "add_seo_problems_stats percent df total_urls =
     (if ''title'' \<in> set (columns df)
      then count_row percent (''URLs sem t'' @ [CHR 0xC3, CHR 0xAD] @ ''tulo'')
             (length (filter (\<lambda>r. fillna [] (title r) = []) (rows df))) total_urls
      else [])
   @ (if ''meta_description'' \<in> set (columns df)
      then count_row percent ''URLs sem meta description''
             (length (filter (\<lambda>r. fillna [] (meta_description r) = []) (rows df))) total_urls
      else [])
   @ (if ''h1_count'' \<in> set (columns df)
      then count_row percent ''URLs sem H1''
             (length (filter (\<lambda>r. fillna 0 (h1_count r) = 0) (rows df))) total_urls
      else [])
   @ (if ''h2_count'' \<in> set (columns df)
      then count_row percent ''URLs sem H2''
             (length (filter (\<lambda>r. fillna 0 (h2_count r) = 0) (rows df))) total_urls
      else [])
   @ (if ''images_without_alt'' \<in> set (columns df)
      then count_row percent ''URLs com imagens sem ALT''
             (length (filter (\<lambda>r. fillna 0 (images_without_alt r) > 0) (rows df))) total_urls
      else [])"

definition add_technical_stats ::
  "(nat \<Rightarrow> nat \<Rightarrow> string) \<Rightarrow> page frame \<Rightarrow> nat \<Rightarrow> summary_row list" where
  "add_technical_stats percent df total_urls =
     (if ''canonical_url'' \<in> set (columns df)
      then count_row percent ''URLs sem canonical''
             (length (filter (\<lambda>r. fillna [] (canonical_url r) = []) (rows df))) total_urls
      else [])
   @ (if ''has_viewport'' \<in> set (columns df)
      then count_row percent ''URLs sem viewport''
             (length (filter (\<lambda>r. fillna False (has_viewport r) = False) (rows df))) total_urls
      else [])
   @ (if ''response_time'' \<in> set (columns df)
      then count_row percent ''URLs lentas (>3s)''
             (length (filter (\<lambda>r. fillna 0 (response_time r) > 3) (rows df))) total_urls
      else [])"

definition add_mixed_content_stats ::
  "(nat \<Rightarrow> nat \<Rightarrow> string) \<Rightarrow> page frame \<Rightarrow> nat \<Rightarrow> summary_row list" where
  "add_mixed_content_stats percent df total_urls =
     (if ''total_mixed_content_count'' \<in> set (columns df)
      then count_row percent ''URLs com Mixed Content''
             (length (filter (\<lambda>r. fillna 0 (total_mixed_content_count r) > 0) (rows df))) total_urls
      else [])
   @ (if ''active_mixed_content_count'' \<in> set (columns df)
      then count_row percent (''URLs com Mixed Content '' @ CRITICO)
             (length (filter (\<lambda>r. fillna 0 (active_mixed_content_count r) > 0) (rows df))) total_urls
      else [])
   @ (if ''is_https_page'' \<in> set (columns df)
      then count_row percent (''Total p'' @ [CHR 0xC3, CHR 0xA1] @ ''ginas HTTPS'')
             (length (filter (\<lambda>r. fillna False (is_https_page r) = True) (rows df))) total_urls
      else [])"

definition summary_create_sheet ::
  "(page frame \<Rightarrow> (string \<times> nat) list) \<Rightarrow> (nat \<Rightarrow> nat \<Rightarrow> string) \<Rightarrow> page frame
   \<Rightarrow> summary_row sheet" where
  "summary_create_sheet value_counts percent df =
     (let total_urls = length (rows df) in
      if total_urls = 0 then ErrorSheet ''Nenhum dado para resumir''
      else
        let summary_data =
              [(''Total de URLs'', total_urls, ''100%'')]
              @ add_status_codes_stats value_counts percent df total_urls
              @ add_seo_problems_stats percent df total_urls
              @ add_technical_stats percent df total_urls
              @ add_mixed_content_stats percent df total_urls
        in if length summary_data + 1 > 1
           then DataSheet [''M'' @ [CHR 0xC3, CHR 0xA9] @ ''trica'', ''Valor'', ''Percentual'']
                  summary_data
           else ErrorSheet (''Erro na cria'' @ [CHR 0xC3, CHR 0xA7, CHR 0xC3, CHR 0xA3]
                            @ ''o do resumo''))"

section \<open>ExcelExporter.export_results\<close>

text \<open>
  The crawl data is a list of dictionaries, each a list of key and value. The frame built
  from it has the keys as columns, in the order of their first appearance. The model
  covers the path and the sheet \<open>Dados Completos\<close>: its column order and its cells (a
  missing cell, which the source fills with the empty string, is \<open>None\<close>). The time stamp of
  the default file name is a parameter; \<open>filename\<close> is \<open>[]\<close> when none is given. The
  sheets written after \<open>Dados Completos\<close> and the file itself belong to the export adapter.
\<close>

record 'v raw_sheet =
  raw_columns :: "string list"
  raw_rows :: "'v option list list"

definition get_column_order :: "string list" where
  "get_column_order =
     [''url'', ''final_url'', ''status_code'',
      ''title'', ''title_length'', ''title_words'',
      ''meta_description'', ''meta_description_length'', ''meta_keywords'',
      ''h1_count'', ''h1_text'', ''h1_length'',
      ''h2_count'', ''h3_count'', ''h4_count'', ''h5_count'', ''h6_count'',
      ''internal_links_count'', ''external_links_count'', ''total_links_count'',
      ''images_count'', ''images_without_alt'', ''images_without_src'',
      ''word_count'', ''character_count'', ''text_ratio'',
      ''canonical_url'', ''canonical_is_self'', ''meta_robots'',
      ''has_viewport'', ''has_charset'', ''has_favicon'',
      ''schema_total_count'', ''og_tags_count'', ''twitter_tags_count'',
      ''response_time'', ''content_length'', ''content_type'',
      ''crawl_timestamp'']"

definition frame_columns :: "(string \<times> 'v) list list \<Rightarrow> string list" where
  "frame_columns crawl_data = drop_duplicates (\<lambda>k. k) (concat (map (map fst) crawl_data))"

text \<open>\<open>os.path.join\<close> of a directory and a file name, on a POSIX system.\<close>

definition path_join :: "string \<Rightarrow> string \<Rightarrow> string" where
  "path_join a b =
     (if b \<noteq> [] \<and> hd b = CHR ''/'' then b
      else if a = [] \<or> last a = CHR ''/'' then a @ b
      else a @ ''/'' @ b)"

definition export_results ::
  "string \<Rightarrow> string \<Rightarrow> (string \<times> 'v) list list \<Rightarrow> string \<Rightarrow> string \<times> 'v raw_sheet option" where
  "export_results output_dir timestamp crawl_data filename =
     (if crawl_data = [] then ([], None)
      else
        let filename = (if filename = [] then ''seofrog_crawl_'' @ timestamp @ ''.xlsx''
                        else filename);
            filepath = path_join output_dir filename;
            df_columns = frame_columns crawl_data
        in if df_columns = [] then ([], None)
           else
             let column_order = get_column_order;
                 available_columns = filter (\<lambda>col. col \<in> set df_columns) column_order;
                 extra_columns = filter (\<lambda>col. col \<notin> set column_order) df_columns;
                 final_columns = available_columns @ sort extra_columns
             in (filepath,
                 Some \<lparr>raw_columns = final_columns,
                       raw_rows = map (\<lambda>record. map (map_of record) final_columns) crawl_data\<rparr>))"

section \<open>TechnicalProblemsSheet: rules\<close>

definition find_canonical_issues :: "page frame \<Rightarrow> technical_issue list" where
  "find_canonical_issues df =
     (if ''canonical_url'' \<in> set (columns df) then
        let no_canonical = safe_filter df ''canonical_url''
              (\<lambda>r. fillna [] (canonical_url r) = []) in
        map (\<lambda>row. \<lparr>url = row_get_url no_canonical row,
                     problema = ''Sem canonical URL'',
                     criticidade = MEDIO,
                     categoria = ''Canonical'',
                     valor_atual = Some ''Ausente'',
                     valor_esperado = ''URL canonical definida'',
                     priority_score = 6\<rparr>) (rows no_canonical)
      else [])
   @ (if ''canonical_is_self'' \<in> set (columns df) then
        let canonical_not_self = safe_filter df ''canonical_is_self''
              (\<lambda>r. fillna True (canonical_is_self r) = False) in
        map (\<lambda>row. \<lparr>url = row_get_url canonical_not_self row,
                     problema = ''Canonical aponta para outra URL'',
                     criticidade = BAIXO,
                     categoria = ''Canonical'',
                     valor_atual = row_get canonical_not_self ''canonical_url'' canonical_url [] row,
                     valor_esperado = ''Canonical = URL atual'',
                     priority_score = 3\<rparr>) (rows canonical_not_self)
      else [])"

definition find_viewport_issues :: "page frame \<Rightarrow> technical_issue list" where
  "find_viewport_issues df =
     (if ''has_viewport'' \<notin> set (columns df) then []
      else
        let no_viewport = safe_filter df ''has_viewport''
              (\<lambda>r. fillna False (has_viewport r) = False) in
        map (\<lambda>row. \<lparr>url = row_get_url no_viewport row,
                     problema = ''Sem meta viewport'',
                     criticidade = ALTO,
                     categoria = ''Mobile'',
                     valor_atual = Some ''Ausente'',
                     valor_esperado = ''Meta viewport configurado'',
                     priority_score = 8\<rparr>) (rows no_viewport))"

definition find_charset_issues :: "page frame \<Rightarrow> technical_issue list" where
  "find_charset_issues df =
     (if ''has_charset'' \<notin> set (columns df) then []
      else
        let no_charset = safe_filter df ''has_charset''
              (\<lambda>r. fillna False (has_charset r) = False) in
        map (\<lambda>row. \<lparr>url = row_get_url no_charset row,
                     problema = ''Sem charset definido'',
                     criticidade = MEDIO,
                     categoria = ''Encoding'',
                     valor_atual = Some ''Ausente'',
                     valor_esperado = ''UTF-8'',
                     priority_score = 5\<rparr>) (rows no_charset))"

definition find_schema_issues :: "page frame \<Rightarrow> technical_issue list" where
  "find_schema_issues df =
     (if ''schema_total_count'' \<notin> set (columns df) then []
      else
        let no_schema = safe_filter df ''schema_total_count''
              (\<lambda>r. fillna 0 (schema_total_count r) = 0) in
        concat (map (\<lambda>row.
               let page_type = technical_detect_page_type no_schema row in
               if page_type \<in> set [''Produto'', ''Blog/Artigo'', ''Categoria'', ''Institucional'']
               then [\<lparr>url = row_get_url no_schema row,
                       problema = ''Sem structured data (Schema)'',
                       criticidade = (if page_type = ''Produto'' then MEDIO else BAIXO),
                       categoria = ''Structured Data'',
                       valor_atual = Some ''Ausente'',
                       valor_esperado = ''Schema.org para '' @ page_type,
                       priority_score = (if page_type = ''Produto'' then 7 else 4)\<rparr>]
               else [])
            (rows no_schema)))"

definition find_robots_issues :: "page frame \<Rightarrow> technical_issue list" where
  "find_robots_issues df =
     (if ''meta_robots_noindex'' \<in> set (columns df) then
        let noindex_pages = safe_filter df ''meta_robots_noindex''
              (\<lambda>r. fillna False (meta_robots_noindex r) = True) in
        map (\<lambda>row. \<lparr>url = row_get_url noindex_pages row,
                     problema = ''Meta robots: noindex'',
                     criticidade = ALTO,
                     categoria = ''Indexa'' @ [CHR 0xC3, CHR 0xA7, CHR 0xC3, CHR 0xA3] @ ''o'',
                     valor_atual = Some ''noindex'',
                     valor_esperado = ''index (ou remover tag)'',
                     priority_score = 9\<rparr>) (rows noindex_pages)
      else [])
   @ (if ''meta_robots_nofollow'' \<in> set (columns df) then
        let nofollow_pages = safe_filter df ''meta_robots_nofollow''
              (\<lambda>r. fillna False (meta_robots_nofollow r) = True) in
        map (\<lambda>row. \<lparr>url = row_get_url nofollow_pages row,
                     problema = ''Meta robots: nofollow'',
                     criticidade = MEDIO,
                     categoria = ''Link Equity'',
                     valor_atual = Some ''nofollow'',
                     valor_esperado = ''follow (ou remover tag)'',
                     priority_score = 5\<rparr>) (rows nofollow_pages)
      else [])"

definition find_favicon_issues :: "page frame \<Rightarrow> technical_issue list" where
  "find_favicon_issues df =
     (if ''has_favicon'' \<notin> set (columns df) then []
      else
        let no_favicon = safe_filter df ''has_favicon''
              (\<lambda>r. fillna False (has_favicon r) = False) in
        map (\<lambda>row. \<lparr>url = row_get_url no_favicon row,
                     problema = ''Sem favicon'',
                     criticidade = BAIXO,
                     categoria = ''UX/Branding'',
                     valor_atual = Some ''Ausente'',
                     valor_esperado = ''Favicon configurado'',
                     priority_score = 2\<rparr>) (rows no_favicon))"

definition find_og_issues :: "page frame \<Rightarrow> technical_issue list" where
  "find_og_issues df =
     (if ''og_tags_count'' \<notin> set (columns df) then []
      else
        let no_og = safe_filter df ''og_tags_count'' (\<lambda>r. fillna 0 (og_tags_count r) = 0) in
        concat (map (\<lambda>row.
               let page_type = technical_detect_page_type no_og row in
               if page_type \<in> set [''Produto'', ''Blog/Artigo'', ''Homepage'']
               then [\<lparr>url = row_get_url no_og row,
                       problema = ''Sem Open Graph tags'',
                       criticidade = (if page_type \<in> set [''Produto'', ''Homepage'']
                                      then MEDIO else BAIXO),
                       categoria = ''Social Media'',
                       valor_atual = Some ''Ausente'',
                       valor_esperado = ''OG tags configuradas'',
                       priority_score = (if page_type \<in> set [''Produto'', ''Homepage'']
                                         then 6 else 3)\<rparr>]
               else [])
            (rows no_og)))"

definition technical_create_sheet :: "page frame \<Rightarrow> technical_issue sheet option" where
  "technical_create_sheet df =
     (let technical_issues = find_canonical_issues df @ find_viewport_issues df
            @ find_charset_issues df @ find_schema_issues df @ find_robots_issues df
            @ find_favicon_issues df @ find_og_issues df
      in if technical_issues \<noteq> [] then technical_export_consolidated_issues technical_issues
         else Some (SuccessSheet (check_mark @ '' Nenhum problema t'' @ [CHR 0xC3, CHR 0xA9]
                      @ ''cnico encontrado!'')))"

section \<open>PerformanceSheet: rules\<close>

text \<open>
  The format specifications \<open>.2f\<close>, \<open>.1f\<close> and \<open>.1%\<close> of the f-strings render floating-point
  numbers; they are parameters of the rules that use them. A missing number is rendered
  as \<open>nan\<close>.
\<close>

record float_format =
  fmt_2f :: "rat \<Rightarrow> string"
  fmt_1f :: "rat \<Rightarrow> string"
  fmt_1pct :: "rat \<Rightarrow> string"

definition fmt_float :: "(rat \<Rightarrow> string) \<Rightarrow> rat option \<Rightarrow> string" where
  "fmt_float f c = (case c of None \<Rightarrow> ''nan'' | Some v \<Rightarrow> f v)"

definition find_slow_pages_issues :: "float_format \<Rightarrow> page frame \<Rightarrow> performance_issue list" where
  "find_slow_pages_issues fmt df =
     (if ''response_time'' \<notin> set (columns df) then []
      else
        let slow_pages = safe_filter df ''response_time''
              (\<lambda>r. fillna 0 (response_time r) > 3 \<and> fillna 0 (response_time r) \<le> 5) in
        map (\<lambda>row.
               let response_time = row_get slow_pages ''response_time'' response_time 0 row in
               \<lparr>url = row_get_url slow_pages row,
                problema = ''P'' @ [CHR 0xC3, CHR 0xA1] @ ''gina lenta (''
                           @ fmt_float (fmt_2f fmt) response_time @ ''s)'',
                criticidade = ALTO,
                perf_categoria = ''Velocidade'',
                perf_response_time = response_time,
                perf_content_length = row_get slow_pages ''content_length'' content_length 0 row,
                content_length_mb =
                  bytes_to_mb (row_get slow_pages ''content_length'' content_length 0 row),
                perf_page_type = performance_detect_page_type slow_pages row,
                perf_priority_score = 8\<rparr>)
            (rows slow_pages))"

definition find_very_slow_pages_issues :: "float_format \<Rightarrow> page frame \<Rightarrow> performance_issue list" where
  "find_very_slow_pages_issues fmt df =
     (if ''response_time'' \<notin> set (columns df) then []
      else
        let very_slow_pages = safe_filter df ''response_time''
              (\<lambda>r. fillna 0 (response_time r) > 5) in
        map (\<lambda>row.
               let response_time = row_get very_slow_pages ''response_time'' response_time 0 row in
               \<lparr>url = row_get_url very_slow_pages row,
                problema = ''P'' @ [CHR 0xC3, CHR 0xA1] @ ''gina muito lenta (''
                           @ fmt_float (fmt_2f fmt) response_time @ ''s)'',
                criticidade = CRITICO,
                perf_categoria = ''Velocidade'',
                perf_response_time = response_time,
                perf_content_length =
                  row_get very_slow_pages ''content_length'' content_length 0 row,
                content_length_mb =
                  bytes_to_mb (row_get very_slow_pages ''content_length'' content_length 0 row),
                perf_page_type = performance_detect_page_type very_slow_pages row,
                perf_priority_score = 10\<rparr>)
            (rows very_slow_pages))"

definition find_heavy_pages_issues :: "float_format \<Rightarrow> page frame \<Rightarrow> performance_issue list" where
  "find_heavy_pages_issues fmt df =
     (if ''content_length'' \<notin> set (columns df) then []
      else
        let heavy_pages = safe_filter df ''content_length''
              (\<lambda>r. fillna 0 (content_length r) > 1048576) in
        map (\<lambda>row.
               let content_length = row_get heavy_pages ''content_length'' content_length 0 row;
                   content_mb = bytes_to_mb content_length
               in
               \<lparr>url = row_get_url heavy_pages row,
                problema = ''P'' @ [CHR 0xC3, CHR 0xA1] @ ''gina pesada (''
                           @ fmt_float (fmt_1f fmt) content_mb @ '' MB)'',
                criticidade = (if num_gt content_mb 5 then CRITICO
                               else if num_gt content_mb 3 then ALTO else MEDIO),
                perf_categoria = ''Tamanho'',
                perf_response_time = row_get heavy_pages ''response_time'' response_time 0 row,
                perf_content_length = content_length,
                content_length_mb = content_mb,
                perf_page_type = performance_detect_page_type heavy_pages row,
                perf_priority_score = (if num_gt content_mb 5 then 9
                                       else if num_gt content_mb 3 then 7 else 5)\<rparr>)
            (rows heavy_pages))"

definition find_content_efficiency_issues ::
  "float_format \<Rightarrow> page frame \<Rightarrow> performance_issue list" where
  "find_content_efficiency_issues fmt df =
     (if ''text_ratio'' \<notin> set (columns df) then []
      else
        let low_text_ratio = safe_filter df ''text_ratio''
              (\<lambda>r. fillna 1 (text_ratio r) < 1 / 10) in
        map (\<lambda>row.
               let text_ratio = row_get low_text_ratio ''text_ratio'' text_ratio 0 row in
               \<lparr>url = row_get_url low_text_ratio row,
                problema = ''Baixa efici'' @ [CHR 0xC3, CHR 0xAA] @ ''ncia de conte''
                           @ [CHR 0xC3, CHR 0xBA] @ ''do (''
                           @ fmt_float (fmt_1pct fmt) text_ratio @ '' texto)'',
                criticidade = BAIXO,
                perf_categoria = ''Efici'' @ [CHR 0xC3, CHR 0xAA] @ ''ncia'',
                perf_response_time = row_get low_text_ratio ''response_time'' response_time 0 row,
                perf_content_length =
                  row_get low_text_ratio ''content_length'' content_length 0 row,
                content_length_mb =
                  bytes_to_mb (row_get low_text_ratio ''content_length'' content_length 0 row),
                perf_page_type = performance_detect_page_type low_text_ratio row,
                perf_priority_score = 3\<rparr>)
            (rows low_text_ratio))"

definition performance_create_sheet ::
  "float_format \<Rightarrow> page frame \<Rightarrow> performance_issue sheet option" where
  "performance_create_sheet fmt df =
     (let performance_issues = find_slow_pages_issues fmt df @ find_very_slow_pages_issues fmt df
            @ find_heavy_pages_issues fmt df @ find_resource_heavy_issues df
            @ find_content_efficiency_issues fmt df
      in if performance_issues \<noteq> [] then performance_export_consolidated_issues performance_issues
         else Some (SuccessSheet (check_mark @ '' Nenhum problema de performance encontrado!'')))"

section \<open>ImageProblemsSheet: rules\<close>

text \<open>
  The rows of the image sheet, without the advisory cells. The issues of the missing-SRC
  rule have the key \<open>images_without_src\<close> and not \<open>images_without_alt\<close>; the other rules the
  reverse. In the frame the absent cell is missing, and \<open>issue_images_without_src\<close> is
  \<open>None\<close> exactly for the rows of the other rules.
\<close>

record image_issue = issue +
  issue_images_count :: "int option"
  issue_images_without_alt :: "int option"
  issue_images_without_src :: "int option"
  images_with_alt :: "int option"
  alt_coverage :: string
  image_page_type :: string

definition num_sub :: "int option \<Rightarrow> int option \<Rightarrow> int option" where
  "num_sub a b = (case (a, b) of (Some x, Some y) \<Rightarrow> Some (x - y) | _ \<Rightarrow> None)"

definition percent_of :: "int option \<Rightarrow> int option \<Rightarrow> rat option" where
  "percent_of part whole =
     (case (part, whole) of (Some p, Some w) \<Rightarrow> Some (of_int p / of_int w * 100) | _ \<Rightarrow> None)"

definition image_frame_columns :: "image_issue list \<Rightarrow> string list" where
  "image_frame_columns issues =
     (case issues of
        [] \<Rightarrow> []
      | first # _ \<Rightarrow>
          if issue_images_without_src first = None then
            [''url'', ''problema'', ''criticidade'', ''images_count'', ''images_without_alt'',
             ''images_with_alt'', ''alt_coverage'', ''page_type'', ''accessibility_impact'',
             ''seo_impact'', ''action_required'', ''technical_fix'']
            @ (if list_ex (\<lambda>i. issue_images_without_src i \<noteq> None) issues
               then [''images_without_src''] else [])
          else
            [''url'', ''problema'', ''criticidade'', ''images_count'', ''images_without_src'',
             ''images_with_alt'', ''alt_coverage'', ''page_type'', ''accessibility_impact'',
             ''seo_impact'', ''action_required'', ''technical_fix'']
            @ (if list_ex (\<lambda>i. issue_images_without_src i = None) issues
               then [''images_without_alt''] else []))"

definition find_no_alt_issues :: "float_format \<Rightarrow> page frame \<Rightarrow> image_issue list" where
  "find_no_alt_issues fmt df =
     (if ''images_without_alt'' \<notin> set (columns df) then []
      else
        let no_alt_pages = safe_filter df ''images_without_alt''
              (\<lambda>r. fillna 0 (images_without_alt r) > 0) in
        map (\<lambda>row.
               let images_without_alt = row_get no_alt_pages ''images_without_alt''
                                          images_without_alt 0 row;
                   total_images = row_get no_alt_pages ''images_count'' images_count 0 row;
                   alt_percentage = (if num_gt total_images 0
                                     then percent_of (num_sub total_images images_without_alt)
                                            total_images
                                     else Some 0)
               in
               \<lparr>url = row_get_url no_alt_pages row,
                problema = fmt_num images_without_alt @ '' imagens sem ALT'',
                criticidade = (if num_gt images_without_alt 5 then CRITICO else ALTO),
                issue_images_count = total_images,
                issue_images_without_alt = images_without_alt,
                issue_images_without_src = None,
                images_with_alt = num_sub total_images images_without_alt,
                alt_coverage = fmt_float (fmt_1f fmt) alt_percentage @ ''%'',
                image_page_type = image_detect_page_type no_alt_pages row\<rparr>)
            (rows no_alt_pages))"

definition find_no_src_issues :: "page frame \<Rightarrow> image_issue list" where
  "find_no_src_issues df =
     (if ''images_without_src'' \<notin> set (columns df) then []
      else
        let no_src_pages = safe_filter df ''images_without_src''
              (\<lambda>r. fillna 0 (images_without_src r) > 0) in
        map (\<lambda>row.
               let images_without_src = row_get no_src_pages ''images_without_src''
                                          images_without_src 0 row;
                   total_images = row_get no_src_pages ''images_count'' images_count 0 row
               in
               \<lparr>url = row_get_url no_src_pages row,
                problema = fmt_num images_without_src @ '' imagens sem SRC'',
                criticidade = CRITICO,
                issue_images_count = total_images,
                issue_images_without_alt = None,
                issue_images_without_src = images_without_src,
                images_with_alt =
                  num_sub (row_get no_src_pages ''images_count'' images_count 0 row)
                          (row_get no_src_pages ''images_without_alt'' images_without_alt 0 row),
                alt_coverage = ''N/A'',
                image_page_type = image_detect_page_type no_src_pages row\<rparr>)
            (rows no_src_pages))"

definition find_many_images_issues :: "float_format \<Rightarrow> page frame \<Rightarrow> image_issue list" where
  "find_many_images_issues fmt df =
     (if ''images_count'' \<notin> set (columns df) then []
      else
        let many_images = safe_filter df ''images_count''
              (\<lambda>r. fillna 0 (images_count r) > 50) in
        map (\<lambda>row.
               let images_count = row_get many_images ''images_count'' images_count 0 row;
                   images_without_alt = row_get many_images ''images_without_alt''
                                          images_without_alt 0 row
               in
               \<lparr>url = row_get_url many_images row,
                problema = ''Muitas imagens ('' @ fmt_num images_count @ '' imagens)'',
                criticidade = (if num_gt images_count 100 then ALTO else MEDIO),
                issue_images_count = images_count,
                issue_images_without_alt = images_without_alt,
                issue_images_without_src = None,
                images_with_alt = num_sub images_count images_without_alt,
                alt_coverage =
                  (if num_gt images_count 0
                   then fmt_float (fmt_1f fmt)
                          (percent_of (num_sub images_count images_without_alt) images_count)
                        @ ''%''
                   else ''0%''),
                image_page_type = image_detect_page_type many_images row\<rparr>)
            (rows many_images))"

definition find_no_images_issues :: "page frame \<Rightarrow> image_issue list" where
  "find_no_images_issues df =
     (if ''images_count'' \<notin> set (columns df) then []
      else
        let no_images = safe_filter df ''images_count''
              (\<lambda>r. fillna 0 (images_count r) = 0) in
        concat (map (\<lambda>row.
               let page_type = image_detect_page_type no_images row in
               if page_type \<in> set [''Produto'', ''Blog/Artigo'', ''Categoria'']
               then [\<lparr>url = row_get_url no_images row,
                       problema = ''Nenhuma imagem encontrada'',
                       criticidade = (if page_type = ''Produto'' then MEDIO else BAIXO),
                       issue_images_count = Some 0,
                       issue_images_without_alt = Some 0,
                       issue_images_without_src = None,
                       images_with_alt = Some 0,
                       alt_coverage = ''N/A'',
                       image_page_type = page_type\<rparr>]
               else [])
            (rows no_images)))"

definition find_dimension_issues :: "float_format \<Rightarrow> page frame \<Rightarrow> image_issue list" where
  "find_dimension_issues fmt df =
     (if ''images_with_dimensions'' \<notin> set (columns df) \<or> ''images_count'' \<notin> set (columns df)
      then []
      else
        concat (map (\<lambda>row.
               let images_count = row_get df ''images_count'' images_count 0 row;
                   images_with_dimensions = row_get df ''images_with_dimensions''
                                              images_with_dimensions 0 row
               in
               if num_gt images_count 0 then
                 let images_without_dimensions = num_sub images_count images_with_dimensions;
                     dimension_coverage = percent_of images_with_dimensions images_count
                 in
                 if num_lt dimension_coverage 80 \<and> num_gt images_without_dimensions 0 then
                   [\<lparr>url = row_get_url df row,
                     problema = fmt_num images_without_dimensions @ '' imagens sem dimens''
                                @ [CHR 0xC3, CHR 0xB5] @ ''es'',
                     criticidade = BAIXO,
                     issue_images_count = images_count,
                     issue_images_without_alt =
                       row_get df ''images_without_alt'' images_without_alt 0 row,
                     issue_images_without_src = None,
                     images_with_alt =
                       num_sub images_count
                         (row_get df ''images_without_alt'' images_without_alt 0 row),
                     alt_coverage =
                       fmt_float (fmt_1f fmt)
                         (percent_of
                            (num_sub images_count
                               (row_get df ''images_without_alt'' images_without_alt 0 row))
                            images_count) @ ''%'',
                     image_page_type = image_detect_page_type df row\<rparr>]
                 else []
               else [])
            (rows df)))"

definition image_create_sheet :: "float_format \<Rightarrow> page frame \<Rightarrow> image_issue sheet option" where
  "image_create_sheet fmt df =
     (let image_issues = find_no_alt_issues fmt df @ find_no_src_issues df
            @ find_many_images_issues fmt df @ find_no_images_issues df
            @ find_dimension_issues fmt df
      in if image_issues \<noteq> []
         then image_export_consolidated_issues (image_frame_columns image_issues) image_issues
         else Some (SuccessSheet (check_mark @ '' Nenhum problema de imagem encontrado!'')))"

section \<open>Example inputs\<close>

text \<open>A record that only carries its url, and small inputs on which the theorems are run.\<close>

definition blank_page :: "string \<Rightarrow> page" where
  "blank_page u = \<lparr>url = u, status_code = None, title = None, title_length = None,
     title_words = None, meta_description = None, meta_description_length = None,
     h1_count = None, h1_text = None, h1_length = None, h2_count = None, h3_count = None,
     h4_count = None, h5_count = None, h6_count = None, images_count = None,
     images_without_alt = None, total_links_count = None, canonical_url = None,
     has_viewport = None, response_time = None, content_length = None, is_https_page = None,
     total_mixed_content_count = None, active_mixed_content_count = None,
     passive_mixed_content_count = None, active_mixed_content_details = None,
     passive_mixed_content_details = None, mixed_content_risk = None,
     http_links_count = None, http_forms_count = None, images_without_src = None,
     images_with_dimensions = None, canonical_is_self = None, has_charset = None,
     has_favicon = None, meta_robots_noindex = None, meta_robots_nofollow = None,
     schema_total_count = None, og_tags_count = None, text_ratio = None\<rparr>"

definition example_issues :: "issue list" where
  "example_issues =
     [\<lparr>url = ''b'', problema = ''p1'', criticidade = BAIXO\<rparr>,
      \<lparr>url = ''a'', problema = ''p2'', criticidade = ''INFO''\<rparr>,
      \<lparr>url = ''b'', problema = ''p3'', criticidade = CRITICO\<rparr>,
      \<lparr>url = ''a'', problema = ''p4'', criticidade = CRITICO\<rparr>]"



definition example_no_headings :: "page frame" where
  "example_no_headings = \<lparr>columns = [''url'', ''h1_count'', ''h2_count''],
     rows = [(blank_page ''a'') \<lparr>h1_count := Some 0, h2_count := Some 0\<rparr>]\<rparr>"

definition example_urls :: "row_url frame" where
  "example_urls = \<lparr>columns = [''url''],
     rows = [\<lparr>url = ''https://site.test/Galeria/fotos''\<rparr>,
             \<lparr>url = ''https://site.test/post/sobre-nos''\<rparr>]\<rparr>"



definition example_no_https_column :: "page frame" where
  "example_no_https_column = \<lparr>columns = [''url'', ''total_mixed_content_count''],
     rows = [(blank_page ''https://site.test/'') \<lparr>total_mixed_content_count := Some 2\<rparr>]\<rparr>"

definition empty_frame :: "page frame" where
  "empty_frame = \<lparr>columns = [], rows = []\<rparr>"

definition example_crawl :: "(string \<times> string) list list" where
  "example_crawl =
     [[(''zeta'', ''1''), (''title'', ''Home''), (''url'', ''https://site.test/'')],
      [(''url'', ''https://site.test/a''), (''alpha'', ''x''), (''status_code'', ''200'')]]"

section \<open>Properties of the shared consolidation steps\<close>

lemma drop_duplicates_seen_keys:
  "set (map key (drop_duplicates_seen key seen xs)) = set (map key xs) - set seen"
  by (induction xs arbitrary: seen) auto

lemma drop_duplicates_seen_distinct:
  "distinct (map key (drop_duplicates_seen key seen xs))"
proof (induction xs arbitrary: seen)
  case Nil
  then show ?case by simp
next
  case (Cons x xs)
  have "key x \<notin> set (map key (drop_duplicates_seen key (key x # seen) xs))"
    unfolding drop_duplicates_seen_keys by simp
  with Cons show ?case by simp
qed

lemma drop_duplicates_seen_subset:
  "set (drop_duplicates_seen key seen xs) \<subseteq> set xs"
  by (induction xs arbitrary: seen) auto

lemma sort_order_le_5: "sort_order c \<le> 5"
  by (simp add: sort_order_def criticality_order_def)

lemma sort_order_values:
  "sort_order CRITICO_MAXIMO = 0" "sort_order CRITICO = 1" "sort_order ALTO = 2"
  "sort_order MEDIO = 3" "sort_order BAIXO = 4"
  by (simp_all add: sort_order_def criticality_order_def CRITICO_MAXIMO_def CRITICO_def
      ALTO_def MEDIO_def BAIXO_def)

lemma sort_order_unmapped:
  "c \<notin> {CRITICO_MAXIMO, CRITICO, ALTO, MEDIO, BAIXO} \<Longrightarrow> sort_order c = 5"
  by (simp add: sort_order_def criticality_order_def)

lemma sorted_pairs_wrt:
  "sorted (map (\<lambda>i. (f i :: nat, g i :: string)) xs) \<Longrightarrow>
   sorted_wrt (\<lambda>a b. f a < f b \<or> (f a = f b \<and> g a \<le> g b)) xs"
  by (induction xs) (auto simp: less_eq_prod_def)

lemma drop_duplicates_seen_first:
  "x \<in> set (drop_duplicates_seen key seen xs) \<Longrightarrow>
   \<exists>pre post. xs = pre @ x # post \<and> key x \<notin> key ` set pre \<and> key x \<notin> set seen"
proof (induction xs arbitrary: seen)
  case Nil
  then show ?case by simp
next
  case (Cons y ys)
  show ?case
  proof (cases "key y \<in> set seen")
    case True
    with Cons.prems have "x \<in> set (drop_duplicates_seen key seen ys)" by simp
    from Cons.IH[OF this] obtain pre post where
      p: "ys = pre @ x # post" "key x \<notin> key ` set pre" "key x \<notin> set seen" by blast
    with True have "y # ys = (y # pre) @ x # post \<and> key x \<notin> key ` set (y # pre)
        \<and> key x \<notin> set seen"
      by auto
    then show ?thesis by blast
  next
    case False
    with Cons.prems have "x = y \<or> x \<in> set (drop_duplicates_seen key (key y # seen) ys)" by auto
    then show ?thesis
    proof
      assume "x = y"
      with False have "y # ys = [] @ x # ys \<and> key x \<notin> key ` set [] \<and> key x \<notin> set seen"
        by simp
      then show ?thesis by blast
    next
      assume "x \<in> set (drop_duplicates_seen key (key y # seen) ys)"
      from Cons.IH[OF this] obtain pre post where
        p: "ys = pre @ x # post" "key x \<notin> key ` set pre" "key x \<notin> set (key y # seen)" by blast
      then have "y # ys = (y # pre) @ x # post \<and> key x \<notin> key ` set (y # pre)
          \<and> key x \<notin> set seen"
        by auto
      then show ?thesis by blast
    qed
  qed
qed

lemma sort_by_criticality_sorted:
  "sorted (map (\<lambda>i. (sort_order (criticidade i), url i)) (sort_by_criticality df))"
  unfolding sort_by_criticality_def by (rule sorted_sort_key)

lemma sort_by_criticality_mset: "mset (sort_by_criticality df) = mset df"
  unfolding sort_by_criticality_def by simp

lemma sort_by_criticality_set: "set (sort_by_criticality df) = set df"
  unfolding sort_by_criticality_def by simp

lemma drop_duplicates_sorted_minimal:
  assumes x: "x \<in> set (drop_duplicates url (sort_by_criticality df))"
    and i: "i \<in> set df" "url i = url x"
  shows "sort_order (criticidade x) \<le> sort_order (criticidade i)"
proof -
  let ?k = "\<lambda>i. (sort_order (criticidade i), url i)"
  from x obtain pre post where
    p: "sort_by_criticality df = pre @ x # post" "url x \<notin> url ` set pre"
    unfolding drop_duplicates_def by (blast dest: drop_duplicates_seen_first)
  have "sorted (map ?k (pre @ x # post))"
    using sort_by_criticality_sorted[of df] p(1) by simp
  then have post: "\<forall>y\<in>set post. ?k x \<le> ?k y"
    by (simp add: sorted_append)
  from i(1) have "i \<in> set (pre @ x # post)"
    using sort_by_criticality_set[of df] p(1) by simp
  with i(2) p(2) have "i = x \<or> i \<in> set post"
    by (metis Un_iff imageI set_ConsD set_append)
  then show ?thesis
  proof
    assume "i = x" then show ?thesis by simp
  next
    assume "i \<in> set post"
    with post have "?k x \<le> ?k i" by blast
    then show ?thesis by (auto simp: less_eq_prod_def)
  qed
qed

section \<open>The criticality order (C7)\<close>

text \<open>
  Claim C7. A list sorted by the consolidation ordering \<open>_sort_by_criticality\<close> is a
  rearrangement of its input in which the criticality ranks ascend, rows of equal rank
  being in ascending url order; the ranks are 0 for CRITICO MAXIMO, 1 for CRITICO, 2 for
  ALTO, 3 for MEDIO, 4 for BAIXO, and 5, after BAIXO, for every other label.
\<close>

theorem sort_by_criticality_total_preorder:
  "sorted_wrt (\<lambda>a b. sort_order (criticidade a) < sort_order (criticidade b)
        \<or> (sort_order (criticidade a) = sort_order (criticidade b) \<and> url a \<le> url b))
      (sort_by_criticality df)
   \<and> mset (sort_by_criticality df) = mset df
   \<and> sort_order CRITICO_MAXIMO = 0 \<and> sort_order CRITICO = 1 \<and> sort_order ALTO = 2
   \<and> sort_order MEDIO = 3 \<and> sort_order BAIXO = 4
   \<and> (c \<notin> {CRITICO_MAXIMO, CRITICO, ALTO, MEDIO, BAIXO} \<longrightarrow> sort_order c = 5)"
  using sorted_pairs_wrt[OF sort_by_criticality_sorted, of df]
  by (simp add: sort_by_criticality_mset sort_order_values sort_order_unmapped)

theorem sort_by_criticality_total_preorder_witness:
  "''INFO'' \<notin> {CRITICO_MAXIMO, CRITICO, ALTO, MEDIO, BAIXO} \<and> sort_order ''INFO'' = 5
   \<and> sorted_wrt (\<lambda>a b. sort_order (criticidade a) < sort_order (criticidade b)
        \<or> (sort_order (criticidade a) = sort_order (criticidade b) \<and> url a \<le> url b))
      (sort_by_criticality example_issues)
   \<and> map problema (sort_by_criticality example_issues) = [''p4'', ''p3'', ''p1'', ''p2'']"
proof -
  have notin: "''INFO'' \<notin> {CRITICO_MAXIMO, CRITICO, ALTO, MEDIO, BAIXO}"
    by (simp add: CRITICO_MAXIMO_def CRITICO_def ALTO_def MEDIO_def BAIXO_def)
  have ranks: "sort_order ''INFO'' = 5"
    using sort_by_criticality_total_preorder[of example_issues "''INFO''"] notin by blast
  have order: "map problema (sort_by_criticality example_issues) = [''p4'', ''p3'', ''p1'', ''p2'']"
    by (simp add: sort_by_criticality_def example_issues_def ranks sort_order_values)
  show ?thesis
    using sort_by_criticality_total_preorder[of example_issues "''INFO''"] notin order by blast
qed

section \<open>One row per url in the exported sheet (C10)\<close>

lemma export_dataframe_sorted_urls:
  assumes "df \<noteq> []" and "''url'' \<in> set df_columns" and "''url'' \<in> set cols"
  shows "(\<exists>kept. export_dataframe sheet_name df_columns (sort_by_criticality df) cols
            = DataSheet kept (drop_duplicates url (sort_by_criticality df)))
    \<and> distinct (map url (drop_duplicates url (sort_by_criticality df)))
    \<and> url ` set (drop_duplicates url (sort_by_criticality df)) = url ` set df
    \<and> (\<forall>x\<in>set (drop_duplicates url (sort_by_criticality df)). x \<in> set df \<and>
           (\<forall>i\<in>set df. url i = url x \<longrightarrow>
              sort_order (criticidade x) \<le> sort_order (criticidade i)))"
proof -
  have ne: "sort_by_criticality df \<noteq> []"
    using assms(1) sort_by_criticality_set[of df] by (metis set_empty)
  have av: "''url'' \<in> set (filter (\<lambda>col. col \<in> set df_columns) cols)"
    using assms(2,3) by simp
  have av_ne: "filter (\<lambda>col. col \<in> set df_columns) cols \<noteq> []"
    using assms(2,3) by (auto simp: filter_empty_conv)
  have cols_ne: "cols \<noteq> []" "df_columns \<noteq> []" using assms(2,3) by auto
  have a: "\<exists>kept. export_dataframe sheet_name df_columns (sort_by_criticality df) cols
            = DataSheet kept (drop_duplicates url (sort_by_criticality df))"
    unfolding export_dataframe_def Let_def using ne av av_ne cols_ne by simp
  have b: "distinct (map url (drop_duplicates url (sort_by_criticality df)))"
    unfolding drop_duplicates_def by (rule drop_duplicates_seen_distinct)
  have "set (map url (drop_duplicates url (sort_by_criticality df)))
      = set (map url (sort_by_criticality df))"
    unfolding drop_duplicates_def drop_duplicates_seen_keys by simp
  then have c: "url ` set (drop_duplicates url (sort_by_criticality df)) = url ` set df"
    using sort_by_criticality_set[of df] by simp
  have d: "\<forall>x\<in>set (drop_duplicates url (sort_by_criticality df)). x \<in> set df \<and>
           (\<forall>i\<in>set df. url i = url x \<longrightarrow>
              sort_order (criticidade x) \<le> sort_order (criticidade i))"
  proof
    fix x assume x: "x \<in> set (drop_duplicates url (sort_by_criticality df))"
    then have "x \<in> set df"
      using drop_duplicates_seen_subset[of url "[]" "sort_by_criticality df"]
        sort_by_criticality_set[of df] unfolding drop_duplicates_def by blast
    moreover have "\<forall>i\<in>set df. url i = url x \<longrightarrow>
        sort_order (criticidade x) \<le> sort_order (criticidade i)"
      using drop_duplicates_sorted_minimal[OF x] by blast
    ultimately show "x \<in> set df \<and> (\<forall>i\<in>set df. url i = url x \<longrightarrow>
        sort_order (criticidade x) \<le> sort_order (criticidade i))" by blast
  qed
  from a b c d show ?thesis by blast
qed

text \<open>
  Claim C10. When a non-empty issue list is sorted by criticality and handed to
  \<open>_export_dataframe\<close> with the url among the frame's and the requested columns, the
  exported sheet holds the result of a second deduplication on url alone: its urls are
  pairwise distinct, every url of the input still occurs, and the row kept for a url has
  the least criticality rank among all issues of that url, so of several problems of one
  url only one is exported.
\<close>

theorem export_dataframe_one_row_per_url:
  assumes "df \<noteq> []" and "''url'' \<in> set df_columns" and "''url'' \<in> set cols"
  shows "(\<exists>kept. export_dataframe sheet_name df_columns (sort_by_criticality df) cols
            = DataSheet kept (drop_duplicates url (sort_by_criticality df)))
    \<and> distinct (map url (drop_duplicates url (sort_by_criticality df)))
    \<and> url ` set (drop_duplicates url (sort_by_criticality df)) = url ` set df
    \<and> (\<forall>x\<in>set (drop_duplicates url (sort_by_criticality df)). x \<in> set df \<and>
           (\<forall>i\<in>set df. url i = url x \<longrightarrow>
              sort_order (criticidade x) \<le> sort_order (criticidade i)))"
  using export_dataframe_sorted_urls[OF assms] .

theorem export_dataframe_one_row_per_url_witness:
  "example_issues \<noteq> [] \<and> ''url'' \<in> set [''url'', ''problema'', ''criticidade'']
   \<and> ''url'' \<in> set [''url'', ''problema'']
   \<and> export_dataframe ''Exemplo'' [''url'', ''problema'', ''criticidade'']
        (sort_by_criticality example_issues) [''url'', ''problema'']
      = DataSheet [''url'', ''problema'']
          [\<lparr>url = ''a'', problema = ''p4'', criticidade = CRITICO\<rparr>,
           \<lparr>url = ''b'', problema = ''p3'', criticidade = CRITICO\<rparr>]
   \<and> distinct (map url (drop_duplicates url (sort_by_criticality example_issues)))"
proof -
  have h1: "example_issues \<noteq> []" by (simp add: example_issues_def)
  have h2: "''url'' \<in> set [''url'', ''problema'', ''criticidade'']" by simp
  have h3: "''url'' \<in> set [''url'', ''problema'']" by simp
  note t = export_dataframe_one_row_per_url[OF h1 h2 h3, of "''Exemplo''"]
  have ranks: "sort_order ''INFO'' = 5"
    by (simp add: sort_order_def criticality_order_def CRITICO_MAXIMO_def CRITICO_def
        ALTO_def MEDIO_def BAIXO_def)
  have srt: "sort_by_criticality example_issues =
      [\<lparr>url = ''a'', problema = ''p4'', criticidade = CRITICO\<rparr>,
       \<lparr>url = ''b'', problema = ''p3'', criticidade = CRITICO\<rparr>,
       \<lparr>url = ''b'', problema = ''p1'', criticidade = BAIXO\<rparr>,
       \<lparr>url = ''a'', problema = ''p2'', criticidade = ''INFO''\<rparr>]"
    by (simp add: sort_by_criticality_def example_issues_def ranks sort_order_values)
  have dd: "drop_duplicates url (sort_by_criticality example_issues) =
      [\<lparr>url = ''a'', problema = ''p4'', criticidade = CRITICO\<rparr>,
       \<lparr>url = ''b'', problema = ''p3'', criticidade = CRITICO\<rparr>]"
    unfolding srt by (simp add: drop_duplicates_def)
  from t obtain kept where k: "export_dataframe ''Exemplo'' [''url'', ''problema'', ''criticidade'']
        (sort_by_criticality example_issues) [''url'', ''problema'']
      = DataSheet kept (drop_duplicates url (sort_by_criticality example_issues))"
    by (elim conjE exE)
  have "export_dataframe ''Exemplo'' [''url'', ''problema'', ''criticidade'']
        (sort_by_criticality example_issues) [''url'', ''problema'']
      = DataSheet [''url'', ''problema''] (drop_duplicates url (sort_by_criticality example_issues))"
    unfolding srt by (simp add: export_dataframe_def)
  then have e: "export_dataframe ''Exemplo'' [''url'', ''problema'', ''criticidade'']
        (sort_by_criticality example_issues) [''url'', ''problema'']
      = DataSheet [''url'', ''problema'']
          [\<lparr>url = ''a'', problema = ''p4'', criticidade = CRITICO\<rparr>,
           \<lparr>url = ''b'', problema = ''p3'', criticidade = CRITICO\<rparr>]"
    unfolding dd .
  have d: "distinct (map url (drop_duplicates url (sort_by_criticality example_issues)))"
    using t by (elim conjE)
  show ?thesis
    by (intro conjI h1 h2 h3 e d)
qed

section \<open>Title and meta-description length thresholds (C4)\<close>














section \<open>Duplicate titles (C5)\<close>







section \<open>Records without H1 and H2 (C1)\<close>

lemma criticality_labels_distinct:
  "CRITICO \<noteq> CRITICO_MAXIMO" "ALTO \<noteq> CRITICO_MAXIMO" "MEDIO \<noteq> CRITICO_MAXIMO"
  "BAIXO \<noteq> CRITICO_MAXIMO" "ALTO \<noteq> CRITICO" "MEDIO \<noteq> CRITICO" "BAIXO \<noteq> CRITICO"
  by (simp_all add: CRITICO_MAXIMO_def CRITICO_def ALTO_def MEDIO_def BAIXO_def)

lemma heading_no_h1_ok: "i \<in> set (heading_find_no_h1_issues df) \<Longrightarrow> heading_row_ok i"
  by (auto simp: heading_find_no_h1_issues_def heading_row_ok_def Let_def split: if_splits)


lemma heading_multiple_h1_ok: "i \<in> set (find_multiple_h1_issues df) \<Longrightarrow> heading_row_ok i"
  by (auto simp: find_multiple_h1_issues_def heading_row_ok_def Let_def split: if_splits)

lemma heading_long_h1_ok: "i \<in> set (find_long_h1_issues df) \<Longrightarrow> heading_row_ok i"
  by (auto simp: find_long_h1_issues_def heading_row_ok_def Let_def split: if_splits)


lemma heading_no_h2_ok: "i \<in> set (heading_find_no_h2_issues df) \<Longrightarrow> heading_row_ok i"
  unfolding heading_find_no_h2_issues_def Let_def
  by (auto simp: heading_row_ok_def MEDIO_def split: if_splits)


lemma in_concat_map_if:
  "i \<in> set (concat (map (\<lambda>row. if P row then [f row] else []) xs))
   \<Longrightarrow> \<exists>row\<in>set xs. P row \<and> i = f row"
  by auto

lemma heading_hierarchy_ok:
  assumes "i \<in> set (find_hierarchy_issues df)"
  shows "heading_row_ok i"
proof -
  from assms obtain row where "problema i = ''Hierarquia quebrada: '' @ join '', ''
       ((if num_gt (row_get df ''h3_count'' h3_count 0 row) 0 \<and> num_eq (row_get df ''h2_count'' h2_count 0 row) 0 then [''H3 sem H2''] else [])
              @ (if num_gt (row_get df ''h4_count'' h4_count 0 row) 0 \<and> num_eq (row_get df ''h3_count'' h3_count 0 row) 0 then [''H4 sem H3''] else [])
              @ (if num_gt (row_get df ''h5_count'' h5_count 0 row) 0 \<and> num_eq (row_get df ''h4_count'' h4_count 0 row) 0 then [''H5 sem H4''] else [])
              @ (if num_gt (row_get df ''h6_count'' h6_count 0 row) 0 \<and> num_eq (row_get df ''h5_count'' h5_count 0 row) 0 then [''H6 sem H5''] else []))"
     "criticidade i = MEDIO"
    unfolding find_hierarchy_issues_def Let_def
    by (fastforce dest!: in_concat_map_if)
  then show ?thesis
    unfolding heading_row_ok_def by (simp del: join.simps)
qed

lemma heading_row_ok_rank:
  assumes "heading_row_ok i" "sort_order (criticidade i) \<le> 1"
  shows "problema i = ''Sem H1'' \<and> criticidade i = CRITICO"
  using assms unfolding heading_row_ok_def
  by (auto simp: sort_order_values)

lemma heading_row_ok_not_combined:
  assumes "heading_row_ok i"
  shows "problema i \<noteq> ''Sem H1 E sem H2'' \<and> criticidade i \<noteq> CRITICO_MAXIMO"
  using assms unfolding heading_row_ok_def
  by (auto simp: criticality_labels_distinct criticality_labels_distinct[symmetric])

lemma heading_issues_ok:
  assumes "i \<in> set (heading_find_no_h1_issues df @ find_multiple_h1_issues df
            @ heading_find_no_h2_issues df @ find_hierarchy_issues df @ find_long_h1_issues df)"
  shows "heading_row_ok i"
  using assms heading_no_h1_ok heading_multiple_h1_ok heading_no_h2_ok heading_hierarchy_ok
    heading_long_h1_ok by auto

lemma heading_no_h1_member:
  assumes "''h1_count'' \<in> set (columns df)" "r \<in> set (rows df)" "h1_count r = Some 0"
  shows "\<exists>i\<in>set (heading_find_no_h1_issues df). url i = row_get_url df r
           \<and> problema i = ''Sem H1'' \<and> criticidade i = CRITICO"
proof -
  have "r \<in> set (rows (safe_filter df ''h1_count'' (\<lambda>r. fillna 0 (h1_count r) = 0)))"
    using assms by (simp add: safe_filter_def fillna_def)
  moreover have "columns (safe_filter df ''h1_count'' (\<lambda>r. fillna 0 (h1_count r) = 0)) = columns df"
    using assms(1) by (simp add: safe_filter_def)
  ultimately show ?thesis
    using assms(1) unfolding heading_find_no_h1_issues_def Let_def
    by (auto simp: row_get_url_def image_iff intro!: bexI[of _ r])
qed

lemma drop_duplicates_keeps_key:
  assumes "i \<in> set xs"
  shows "\<exists>j\<in>set (drop_duplicates key xs). key j = key i"
proof -
  have "key i \<in> set (map key (drop_duplicates key xs))"
    unfolding drop_duplicates_def drop_duplicates_seen_keys using assms by simp
  then show ?thesis by auto
qed

lemma drop_duplicates_subset: "set (drop_duplicates key xs) \<subseteq> set xs"
  unfolding drop_duplicates_def by (rule drop_duplicates_seen_subset)

lemma heading_report_no_h1:
  assumes c: "''h1_count'' \<in> set (columns df)" and r: "r \<in> set (rows df)" "h1_count r = Some 0"
  shows "\<exists>cols out. heading_create_sheet df = Some (DataSheet cols out)
          \<and> (\<exists>i\<in>set out. url i = row_get_url df r \<and> problema i = ''Sem H1''
                \<and> criticidade i = CRITICO)
          \<and> (\<forall>i\<in>set out. problema i \<noteq> ''Sem H1 E sem H2''
                \<and> criticidade i \<noteq> CRITICO_MAXIMO)"
proof -
  define H where "H = heading_find_no_h1_issues df @ find_multiple_h1_issues df
            @ heading_find_no_h2_issues df @ find_hierarchy_issues df @ find_long_h1_issues df"
  define DD where "DD = drop_duplicates (\<lambda>i. (url i, problema i)) H"
  define out where "out = drop_duplicates url (sort_by_criticality DD)"
  define cols where "cols = [''url'', ''problema'', ''criticidade'', ''h1_count'', ''h1_text'',
                    ''h2_count'', ''h3_count'', ''estrutura_headings'', ''recomendacao'',
                    ''impacto_seo'']"
  from heading_no_h1_member[OF c r] obtain i0 where
    i0: "i0 \<in> set H" "url i0 = row_get_url df r" "problema i0 = ''Sem H1''"
    unfolding H_def by auto
  then have Hne: "H \<noteq> []" by auto
  from drop_duplicates_keeps_key[OF i0(1), of "\<lambda>i. (url i, problema i)"] obtain i1 where
    i1: "i1 \<in> set DD" "url i1 = row_get_url df r" "problema i1 = ''Sem H1''"
    unfolding DD_def using i0 by auto
  then have DDne: "DD \<noteq> []" by auto
  have DDsub: "set DD \<subseteq> set H" unfolding DD_def by (rule drop_duplicates_subset)
  have okH: "\<And>i. i \<in> set H \<Longrightarrow> heading_row_ok i"
    unfolding H_def by (rule heading_issues_ok)
  have "heading_row_ok i1" using i1(1) DDsub okH by blast
  with i1(3) have crit1: "criticidade i1 = CRITICO"
    unfolding heading_row_ok_def by auto
  have u1: "''url'' \<in> set heading_issue_columns" by (simp add: heading_issue_columns_def)
  have u2: "''url'' \<in> set cols" by (simp add: cols_def)
  note e = export_dataframe_sorted_urls[OF DDne u1 u2, of "''Problemas Headings''", folded out_def]
  from e obtain kept where
    k: "export_dataframe ''Problemas Headings'' heading_issue_columns (sort_by_criticality DD) cols
          = DataSheet kept out" by blast
  have sheet: "heading_create_sheet df = Some (DataSheet kept out)"
    unfolding heading_create_sheet_def heading_export_consolidated_issues_def Let_def
    using Hne k unfolding H_def DD_def cols_def by simp
  from e have img: "url ` set out = url ` set DD" by blast
  from e have mn: "\<forall>x\<in>set out. x \<in> set DD \<and>
       (\<forall>i\<in>set DD. url i = url x \<longrightarrow> sort_order (criticidade x) \<le> sort_order (criticidade i))"
    by blast
  from img i1(1) obtain x where x: "x \<in> set out" "url x = url i1"
    by (metis (no_types, lifting) imageE imageI)
  with mn i1(1) have "sort_order (criticidade x) \<le> sort_order (criticidade i1)" by metis
  then have "sort_order (criticidade x) \<le> 1" using crit1 by (simp add: sort_order_values)
  moreover have "heading_row_ok x" using x(1) mn DDsub okH by blast
  ultimately have "problema x = ''Sem H1'' \<and> criticidade x = CRITICO"
    by (rule heading_row_ok_rank[rotated])
  with x i1(2) have ex: "\<exists>i\<in>set out. url i = row_get_url df r \<and> problema i = ''Sem H1''
                \<and> criticidade i = CRITICO" by auto
  have all: "\<forall>i\<in>set out. problema i \<noteq> ''Sem H1 E sem H2'' \<and> criticidade i \<noteq> CRITICO_MAXIMO"
    using mn DDsub okH heading_row_ok_not_combined by blast
  from sheet ex all show ?thesis by blast
qed

lemma no_h1_h2_draft:
  assumes c: "''h1_count'' \<in> set (columns df)" "''h2_count'' \<in> set (columns df)"
    and r: "r \<in> set (rows df)" "h1_count r = Some 0" "h2_count r = Some 0"
  shows "\<exists>i\<in>set (find_no_h1_h2_issues df). url i = row_get_url df r
           \<and> problema_h1_h2 i = ''Sem H1 E sem H2'' \<and> criticidade_h1_h2 i = CRITICO_MAXIMO
           \<and> prioridade i = 0"
proof -
  let ?f = "safe_filter df ''h1_count'' (\<lambda>r. fillna 0 (h1_count r) = 0 \<and> fillna 0 (h2_count r) = 0)"
  have "r \<in> set (rows ?f)"
    using c r by (simp add: safe_filter_def fillna_def)
  moreover have "columns ?f = columns df"
    using c(1) by (simp add: safe_filter_def)
  ultimately show ?thesis
    using c unfolding find_no_h1_h2_issues_def Let_def
    by (auto simp: row_get_url_def image_iff intro!: bexI[of _ r])
qed

lemma heading_example:
  "heading_create_sheet example_no_headings =
     Some (DataSheet [''url'', ''problema'', ''criticidade'', ''h1_count'', ''h1_text'',
              ''h2_count'', ''h3_count'', ''estrutura_headings'', ''recomendacao'', ''impacto_seo'']
            [\<lparr>url = ''a'', problema = ''Sem H1'', criticidade = CRITICO,
              issue_h1_count = Some 0, issue_h1_text = Some [], issue_h2_count = Some 0,
              issue_h3_count = Some 0, estrutura_headings = ''Sem headings''\<rparr>])"
  by code_simp

lemma h1h2_example:
  "h1h2_create_sheet example_no_headings =
     Some (DataSheet [''url'', ''problema_h1_h2'', ''criticidade'', ''h1_count'', ''h2_count'',
              ''h1_text'', ''title'', ''page_type'', ''action_required'', ''business_impact'',
              ''technical_fix'']
            [\<lparr>url = ''a'', problema_h1_h2 = ''Sem H1'', criticidade_h1_h2 = CRITICO,
              prioridade = 1, h1h2_h1_count = Some 0, h1h2_h1_text = Some [],
              h1h2_h2_count = Some 0, h1h2_title = Some [], page_type = Conteudo\<rparr>])"
  by code_simp

text \<open>
  Claim C1, as stated, fails on the record set \<open>[{url: a, h1_count: 0, h2_count: 0}]\<close>: the
  heading report shows the record as \<open>Sem H1\<close> with criticality CRITICO, and the H1/H2
  report shows it as \<open>Sem H1\<close> with priority 1, not as \<open>Sem H1 E sem H2\<close> with
  CRITICO MAXIMO.
\<close>

theorem no_h1_h2_record_counterexample:
  "heading_create_sheet example_no_headings =
     Some (DataSheet [''url'', ''problema'', ''criticidade'', ''h1_count'', ''h1_text'',
              ''h2_count'', ''h3_count'', ''estrutura_headings'', ''recomendacao'', ''impacto_seo'']
            [\<lparr>url = ''a'', problema = ''Sem H1'', criticidade = CRITICO,
              issue_h1_count = Some 0, issue_h1_text = Some [], issue_h2_count = Some 0,
              issue_h3_count = Some 0, estrutura_headings = ''Sem headings''\<rparr>])
   \<and> h1h2_create_sheet example_no_headings =
     Some (DataSheet [''url'', ''problema_h1_h2'', ''criticidade'', ''h1_count'', ''h2_count'',
              ''h1_text'', ''title'', ''page_type'', ''action_required'', ''business_impact'',
              ''technical_fix'']
            [\<lparr>url = ''a'', problema_h1_h2 = ''Sem H1'', criticidade_h1_h2 = CRITICO,
              prioridade = 1, h1h2_h1_count = Some 0, h1h2_h1_text = Some [],
              h1h2_h2_count = Some 0, h1h2_title = Some [], page_type = Conteudo\<rparr>])
   \<and> ''Sem H1'' \<noteq> ''Sem H1 E sem H2'' \<and> CRITICO \<noteq> CRITICO_MAXIMO"
  using heading_example h1h2_example criticality_labels_distinct(1) by simp

text \<open>
  Claim C1, amended. For every frame with the columns \<open>h1_count\<close> and \<open>h2_count\<close> and every
  record in it with \<open>h1_count = 0\<close> and \<open>h2_count = 0\<close>: the heading report is a data sheet
  in which the record's url appears with the label \<open>Sem H1\<close> and criticality CRITICO, and
  no row of which is labelled \<open>Sem H1 E sem H2\<close> or graded CRITICO MAXIMO; and the combined
  rule of the H1/H2 rule pack drafts for the record an issue \<open>Sem H1 E sem H2\<close> with
  criticality CRITICO MAXIMO and priority 0.
\<close>

theorem no_h1_h2_record_reports:
  assumes "''h1_count'' \<in> set (columns df)" and "''h2_count'' \<in> set (columns df)"
    and "r \<in> set (rows df)" and "h1_count r = Some 0" and "h2_count r = Some 0"
  shows "(\<exists>cols out. heading_create_sheet df = Some (DataSheet cols out)
          \<and> (\<exists>i\<in>set out. url i = row_get_url df r \<and> problema i = ''Sem H1''
                \<and> criticidade i = CRITICO)
          \<and> (\<forall>i\<in>set out. problema i \<noteq> ''Sem H1 E sem H2''
                \<and> criticidade i \<noteq> CRITICO_MAXIMO))
     \<and> (\<exists>i\<in>set (find_no_h1_h2_issues df). url i = row_get_url df r
           \<and> problema_h1_h2 i = ''Sem H1 E sem H2'' \<and> criticidade_h1_h2 i = CRITICO_MAXIMO
           \<and> prioridade i = 0)"
  using heading_report_no_h1[OF assms(1,3,4)] no_h1_h2_draft[OF assms] by (rule conjI)

theorem no_h1_h2_record_reports_witness:
  "''h1_count'' \<in> set (columns example_no_headings)
   \<and> ''h2_count'' \<in> set (columns example_no_headings)
   \<and> hd (rows example_no_headings) \<in> set (rows example_no_headings)
   \<and> h1_count (hd (rows example_no_headings)) = Some 0
   \<and> h2_count (hd (rows example_no_headings)) = Some 0
   \<and> (\<exists>cols out. heading_create_sheet example_no_headings = Some (DataSheet cols out)
          \<and> (\<exists>i\<in>set out. url i = ''a'' \<and> problema i = ''Sem H1''
                \<and> criticidade i = CRITICO)
          \<and> (\<forall>i\<in>set out. problema i \<noteq> ''Sem H1 E sem H2''
                \<and> criticidade i \<noteq> CRITICO_MAXIMO))
   \<and> (\<exists>i\<in>set (find_no_h1_h2_issues example_no_headings). url i = ''a''
           \<and> problema_h1_h2 i = ''Sem H1 E sem H2'' \<and> criticidade_h1_h2 i = CRITICO_MAXIMO
           \<and> prioridade i = 0)"
proof -
  have h: "''h1_count'' \<in> set (columns example_no_headings)"
    "''h2_count'' \<in> set (columns example_no_headings)"
    "hd (rows example_no_headings) \<in> set (rows example_no_headings)"
    "h1_count (hd (rows example_no_headings)) = Some 0"
    "h2_count (hd (rows example_no_headings)) = Some 0"
    by (simp_all add: example_no_headings_def blank_page_def)
  have u: "row_get_url example_no_headings (hd (rows example_no_headings)) = ''a''"
    by (simp add: row_get_url_def example_no_headings_def blank_page_def)
  note t = no_h1_h2_record_reports[OF h, unfolded u]
  show ?thesis
    by (intro conjI h t[THEN conjunct1] t[THEN conjunct2])
qed

section \<open>Page-type classifiers (C8)\<close>

text \<open>The substring test of the model is the usual one.\<close>

lemma contains_iff: "contains sub s \<longleftrightarrow> (\<exists>pre post. s = pre @ sub @ post)"
proof (induction s)
  case Nil
  then show ?case by auto
next
  case (Cons c cs)
  show ?case
  proof
    assume "contains sub (c # cs)"
    then consider "take (length sub) (c # cs) = sub" | "contains sub cs" by auto
    then show "\<exists>pre post. c # cs = pre @ sub @ post"
    proof cases
      case 1
      then have "c # cs = [] @ sub @ drop (length sub) (c # cs)"
        by (metis append_Nil append_take_drop_id)
      then show ?thesis by blast
    next
      case 2
      with Cons.IH obtain pre post where "cs = pre @ sub @ post" by blast
      then have "c # cs = (c # pre) @ sub @ post" by simp
      then show ?thesis by blast
    qed
  next
    assume "\<exists>pre post. c # cs = pre @ sub @ post"
    then obtain pre post where p: "c # cs = pre @ sub @ post" by blast
    show "contains sub (c # cs)"
    proof (cases pre)
      case Nil
      with p have "take (length sub) (c # cs) = sub" by simp
      then show ?thesis by simp
    next
      case pre: (Cons a pre')
      with p have "cs = pre' @ sub @ post" by simp
      with Cons.IH have "contains sub cs" by blast
      then show ?thesis by simp
    qed
  qed
qed

text \<open>
  Claim C8, as stated, fails for the classifier of the image rule pack: a url with the
  segment \<open>/galeria/\<close> is tagged \<open>Galeria\<close>, which is none of the seven tags.
\<close>

theorem image_page_type_counterexample:
  "image_detect_page_type example_urls (hd (rows example_urls)) = ''Galeria''
   \<and> ''Galeria'' \<notin> {''Blog/Artigo'', ''Produto'', ''Categoria'', ''Institucional'', ''Contato'',
                      ''Homepage'', Conteudo}"
  by code_simp

text \<open>
  Claim C8, amended. For every url string, with \<open>u\<close> its lower-case form: the classifier of
  the H1/H2 rule pack returns one of the seven tags, decided by the ordered checks blog or
  article, product, category, institutional, contact, then the homepage heuristic (\<open>u\<close> ends
  with \<open>/\<close> and has at most three \<open>/\<close>), else the generic content tag; the technical
  classifier also takes \<open>/post/\<close> for a blog or article and otherwise agrees with it; the
  image classifier checks blog or article, product, category, gallery (tag \<open>Galeria\<close>) and
  institutional, and has neither the contact check nor the homepage heuristic; the
  performance classifier checks blog or article, product, category and the homepage
  heuristic, and has neither the institutional nor the contact check.
\<close>

theorem page_type_classifiers:
  "(let u = lower (row_get_url df row);
        blog = (contains ''/blog/'' u \<or> contains ''/artigo/'' u);
        product = (contains ''/produto/'' u \<or> contains ''/product/'' u);
        category = (contains ''/categoria/'' u \<or> contains ''/category/'' u);
        gallery = (contains ''/galeria/'' u \<or> contains ''/gallery/'' u);
        institutional = (contains ''/sobre'' u \<or> contains ''/about'' u);
        contact = (contains ''/contato'' u \<or> contains ''/contact'' u);
        homepage = (endswith_slash u \<and> count_slash u \<le> 3)
    in h1h2_detect_page_type df row \<in> {''Blog/Artigo'', ''Produto'', ''Categoria'',
           ''Institucional'', ''Contato'', ''Homepage'', Conteudo}
     \<and> (blog \<longrightarrow> h1h2_detect_page_type df row = ''Blog/Artigo'')
     \<and> (\<not> blog \<and> product \<longrightarrow> h1h2_detect_page_type df row = ''Produto'')
     \<and> (\<not> blog \<and> \<not> product \<and> category \<longrightarrow> h1h2_detect_page_type df row = ''Categoria'')
     \<and> (\<not> blog \<and> \<not> product \<and> \<not> category \<and> institutional \<longrightarrow>
           h1h2_detect_page_type df row = ''Institucional'')
     \<and> (\<not> blog \<and> \<not> product \<and> \<not> category \<and> \<not> institutional \<and> contact \<longrightarrow>
           h1h2_detect_page_type df row = ''Contato'')
     \<and> (\<not> blog \<and> \<not> product \<and> \<not> category \<and> \<not> institutional \<and> \<not> contact \<and> homepage \<longrightarrow>
           h1h2_detect_page_type df row = ''Homepage'')
     \<and> (\<not> blog \<and> \<not> product \<and> \<not> category \<and> \<not> institutional \<and> \<not> contact \<and> \<not> homepage \<longrightarrow>
           h1h2_detect_page_type df row = Conteudo)
     \<and> technical_detect_page_type df row =
           (if contains ''/post/'' u then ''Blog/Artigo'' else h1h2_detect_page_type df row)
     \<and> image_detect_page_type df row =
           (if blog then ''Blog/Artigo'' else if product then ''Produto''
            else if category then ''Categoria'' else if gallery then ''Galeria''
            else if institutional then ''Institucional'' else Conteudo)
     \<and> performance_detect_page_type df row =
           (if blog then ''Blog/Artigo'' else if product then ''Produto''
            else if category then ''Categoria'' else if homepage then ''Homepage''
            else Conteudo))"
  unfolding Let_def h1h2_detect_page_type_def technical_detect_page_type_def
    image_detect_page_type_def performance_detect_page_type_def
  by (simp del: contains.simps)


theorem page_type_classifiers_witness:
  "lower (row_get_url example_urls (rows example_urls ! 1)) = ''https://site.test/post/sobre-nos''
   \<and> \<not> contains ''/blog/'' ''https://site.test/post/sobre-nos''
   \<and> \<not> contains ''/artigo/'' ''https://site.test/post/sobre-nos''
   \<and> contains ''/sobre'' ''https://site.test/post/sobre-nos''
   \<and> contains ''/post/'' ''https://site.test/post/sobre-nos''
   \<and> h1h2_detect_page_type example_urls (rows example_urls ! 1) = ''Institucional''
   \<and> technical_detect_page_type example_urls (rows example_urls ! 1) = ''Blog/Artigo''
   \<and> image_detect_page_type example_urls (rows example_urls ! 1) = ''Institucional''
   \<and> performance_detect_page_type example_urls (rows example_urls ! 1) = Conteudo"
proof -
  have u: "lower (row_get_url example_urls (rows example_urls ! 1))
      = ''https://site.test/post/sobre-nos''"
    by (simp add: row_get_url_def example_urls_def lower_def lower_char_def)
  note t = page_type_classifiers[of example_urls "rows example_urls ! 1", unfolded Let_def u]
  show ?thesis
    using t u by (simp add: endswith_slash_def count_slash_def)
qed

section \<open>The orderings of the consolidations (C2)\<close>














section \<open>Rules on frames that lack a needed column (C3)\<close>

text \<open>The rules that test for their column first return no issue when it is missing.\<close>

lemma guarded_rules_without_column:
  "''title_length'' \<notin> set (columns df) \<Longrightarrow> find_long_title_issues df = []"
  "''title_length'' \<notin> set (columns df) \<Longrightarrow> find_short_title_issues df = []"
  "''title'' \<notin> set (columns df) \<Longrightarrow> find_no_title_issues df = []"
  "''title'' \<notin> set (columns df) \<Longrightarrow> find_duplicate_title_issues df = Inr []"
  "''h1_count'' \<notin> set (columns df) \<Longrightarrow> heading_find_no_h1_issues df = []"
  "''h2_count'' \<notin> set (columns df) \<Longrightarrow> find_no_h1_h2_issues df = []"
  by (simp_all add: find_long_title_issues_def find_short_title_issues_def
      find_no_title_issues_def find_duplicate_title_issues_def heading_find_no_h1_issues_def
      find_no_h1_h2_issues_def)

text \<open>
  Claim C3 requires every rule to contribute an empty issue sequence, without raising, when
  a field it needs is absent. On the record set
  \<open>[{url: https://site.test/, total_mixed_content_count: 2}]\<close>, which has no
  \<open>is_https_page\<close> field, the rule \<open>_process_https_issues\<close> raises \<open>KeyError\<close> instead, and
  the mixed-content sheet becomes an error sheet.
\<close>

theorem mixed_content_missing_column_raises:
  "process_https_issues example_no_https_column = Inl (KeyError ''is_https_page'')
   \<and> mixed_create_sheet example_no_https_column
       = ErrorSheet (''Erro: '' @ [CHR 0x27] @ ''is_https_page'' @ [CHR 0x27])"
  by code_simp

section \<open>The column order of the raw-data view (C9)\<close>

lemma frame_columns_distinct: "distinct (frame_columns crawl_data)"
  using drop_duplicates_seen_distinct[of "\<lambda>k. k" "[]" "concat (map (map fst) crawl_data)"]
  unfolding frame_columns_def drop_duplicates_def by simp

lemma frame_columns_set:
  "set (frame_columns crawl_data) = (\<Union>record\<in>set crawl_data. fst ` set record)"
  using drop_duplicates_seen_keys[of "\<lambda>k. k" "[]" "concat (map (map fst) crawl_data)"]
  unfolding frame_columns_def drop_duplicates_def by simp

lemma get_column_order_distinct: "distinct get_column_order"
  by (simp add: get_column_order_def)

text \<open>
  Claim C9. For every non-empty record set whose records have at least one field,
  \<open>export_results\<close> produces the raw-data view, and its column order is the priority list
  restricted to the columns present in the data, in the declared order, followed by all
  remaining columns in ascending (sorted) order; every column of the data occurs exactly
  once.
\<close>

theorem raw_data_column_order:
  assumes "crawl_data \<noteq> []" and "frame_columns crawl_data \<noteq> []"
  shows "\<exists>filepath sheet.
      export_results output_dir timestamp crawl_data filename = (filepath, Some sheet)
      \<and> (\<exists>priority rest. raw_columns sheet = priority @ rest
            \<and> priority = filter (\<lambda>c. c \<in> set (frame_columns crawl_data)) get_column_order
            \<and> sorted rest \<and> distinct rest
            \<and> set rest = set (frame_columns crawl_data) - set get_column_order)
      \<and> distinct (raw_columns sheet)
      \<and> set (raw_columns sheet) = set (frame_columns crawl_data)
      \<and> set (frame_columns crawl_data) = (\<Union>record\<in>set crawl_data. fst ` set record)"
proof -
  define cols where "cols = frame_columns crawl_data"
  define p where "p = filter (\<lambda>c. c \<in> set cols) get_column_order"
  define r where "r = sort (filter (\<lambda>c. c \<notin> set get_column_order) cols)"
  define fn where "fn = (if filename = [] then ''seofrog_crawl_'' @ timestamp @ ''.xlsx''
                         else filename)"
  define sheet where "sheet = \<lparr>raw_columns = p @ r,
                 raw_rows = map (\<lambda>record. map (map_of record) (p @ r)) crawl_data\<rparr>"
  have e: "export_results output_dir timestamp crawl_data filename
           = (path_join output_dir fn, Some sheet)"
    unfolding export_results_def Let_def sheet_def p_def r_def fn_def cols_def
    using assms by (simp only: if_False)
  have rc: "raw_columns sheet = p @ r" by (simp add: sheet_def)
  have r1: "sorted r" unfolding r_def by simp
  have r2: "distinct r" unfolding r_def cols_def
    using frame_columns_distinct[of crawl_data] by simp
  have r3: "set r = set cols - set get_column_order" unfolding r_def by auto
  have dp: "distinct p" unfolding p_def
    using get_column_order_distinct by (rule distinct_filter)
  have sp: "set p = set cols \<inter> set get_column_order" unfolding p_def by auto
  have d: "distinct (p @ r)"
    using dp r2 unfolding distinct_append sp r3 by blast
  have s: "set (p @ r) = set cols" unfolding set_append sp r3 by blast
  have split: "\<exists>priority rest. raw_columns sheet = priority @ rest
            \<and> priority = p \<and> sorted rest \<and> distinct rest
            \<and> set rest = set cols - set get_column_order"
    using rc r1 r2 r3 by blast
  have u: "set cols = (\<Union>record\<in>set crawl_data. fst ` set record)"
    unfolding cols_def by (rule frame_columns_set)
  have "export_results output_dir timestamp crawl_data filename = (path_join output_dir fn, Some sheet)
      \<and> (\<exists>priority rest. raw_columns sheet = priority @ rest
            \<and> priority = p \<and> sorted rest \<and> distinct rest
            \<and> set rest = set cols - set get_column_order)
      \<and> distinct (raw_columns sheet)
      \<and> set (raw_columns sheet) = set cols
      \<and> set cols = (\<Union>record\<in>set crawl_data. fst ` set record)"
    using e split d s u unfolding rc by (intro conjI)
  then show ?thesis unfolding p_def cols_def by (intro exI)
qed

theorem raw_data_column_order_witness:
  "example_crawl \<noteq> [] \<and> frame_columns example_crawl \<noteq> []
   \<and> export_results ''seofrog_output'' ''20240101_120000'' example_crawl []
       = (''seofrog_output/seofrog_crawl_20240101_120000.xlsx'',
          Some \<lparr>raw_columns = [''url'', ''status_code'', ''title'', ''alpha'', ''zeta''],
                raw_rows = [[Some ''https://site.test/'', None, Some ''Home'', None, Some ''1''],
                            [Some ''https://site.test/a'', Some ''200'', None, Some ''x'', None]]\<rparr>)
   \<and> (\<exists>filepath sheet.
        export_results ''seofrog_output'' ''20240101_120000'' example_crawl [] = (filepath, Some sheet)
        \<and> (\<exists>priority rest. raw_columns sheet = priority @ rest
              \<and> priority = filter (\<lambda>c. c \<in> set (frame_columns example_crawl)) get_column_order
              \<and> sorted rest \<and> distinct rest
              \<and> set rest = set (frame_columns example_crawl) - set get_column_order)
        \<and> distinct (raw_columns sheet)
        \<and> set (raw_columns sheet) = set (frame_columns example_crawl)
        \<and> set (frame_columns example_crawl) = (\<Union>record\<in>set example_crawl. fst ` set record))"
proof -
  have h1: "example_crawl \<noteq> []" by (simp add: example_crawl_def)
  have h2: "frame_columns example_crawl \<noteq> []" by code_simp
  have ev: "export_results ''seofrog_output'' ''20240101_120000'' example_crawl []
       = (''seofrog_output/seofrog_crawl_20240101_120000.xlsx'',
          Some \<lparr>raw_columns = [''url'', ''status_code'', ''title'', ''alpha'', ''zeta''],
                raw_rows = [[Some ''https://site.test/'', None, Some ''Home'', None, Some ''1''],
                            [Some ''https://site.test/a'', Some ''200'', None, Some ''x'', None]]\<rparr>)"
    by code_simp
  note t = raw_data_column_order[OF h1 h2, of "''seofrog_output''" "''20240101_120000''" "[]"]
  show ?thesis
    using h1 h2 ev t by (intro conjI)
qed

section \<open>The empty record set (C6)\<close>

text \<open>
  Claim C6, as stated, fails for \<open>export_results\<close>: on the empty record set it returns the
  empty path and produces no sheet at all, so neither a summary marker nor any category
  marker exists.
\<close>

theorem empty_input_counterexample:
  "export_results ''seofrog_output'' ''20240101_120000'' ([] :: (string \<times> string) list list) []
     = ([], None)"
  by (simp add: export_results_def)

text \<open>
  Claim C6, amended. For the empty record set, \<open>export_results\<close> returns the empty path
  and writes nothing; applied to the empty frame, the summary sheet is the explicit marker
  \<open>Nenhum dado para resumir\<close>, and the title, meta-description, heading, H1/H2, image,
  technical and performance category sheets are their all-clear markers. No step of these
  raises.
\<close>

theorem empty_input_markers:
  "export_results output_dir timestamp [] filename = ([], None)
   \<and> summary_create_sheet value_counts percent empty_frame
       = ErrorSheet ''Nenhum dado para resumir''
   \<and> title_create_sheet empty_frame
       = Some (SuccessSheet (check_mark @ '' Nenhum problema de t'' @ [CHR 0xC3, CHR 0xAD]
                             @ ''tulo encontrado!''))
   \<and> meta_create_sheet empty_frame
       = Some (SuccessSheet (check_mark @ '' Nenhum problema de meta description!''))
   \<and> heading_create_sheet empty_frame
       = Some (SuccessSheet (check_mark @ '' Estrutura de headings adequada!''))
   \<and> h1h2_create_sheet empty_frame
       = Some (SuccessSheet (check_mark @ '' Estrutura de H1/H2 adequada!''))
   \<and> image_create_sheet fmt empty_frame
       = Some (SuccessSheet (check_mark @ '' Nenhum problema de imagem encontrado!''))
   \<and> technical_create_sheet empty_frame
       = Some (SuccessSheet (check_mark @ '' Nenhum problema t'' @ [CHR 0xC3, CHR 0xA9]
                             @ ''cnico encontrado!''))
   \<and> performance_create_sheet fmt empty_frame
       = Some (SuccessSheet (check_mark @ '' Nenhum problema de performance encontrado!''))"
proof (intro conjI)
  show "export_results output_dir timestamp [] filename = ([], None)"
    by (simp add: export_results_def)
  show "summary_create_sheet value_counts percent empty_frame
       = ErrorSheet ''Nenhum dado para resumir''"
    by (simp add: summary_create_sheet_def empty_frame_def)
  show "title_create_sheet empty_frame
       = Some (SuccessSheet (check_mark @ '' Nenhum problema de t'' @ [CHR 0xC3, CHR 0xAD]
                             @ ''tulo encontrado!''))"
    by (simp add: title_create_sheet_def find_no_title_issues_def find_long_title_issues_def
        find_short_title_issues_def find_duplicate_title_issues_def empty_frame_def)
  show "meta_create_sheet empty_frame
       = Some (SuccessSheet (check_mark @ '' Nenhum problema de meta description!''))"
    by (simp add: meta_create_sheet_def find_no_meta_issues_def find_long_meta_issues_def
        find_short_meta_issues_def find_duplicate_meta_issues_def empty_frame_def)
  show "heading_create_sheet empty_frame
       = Some (SuccessSheet (check_mark @ '' Estrutura de headings adequada!''))"
    by (simp add: heading_create_sheet_def heading_find_no_h1_issues_def
        find_multiple_h1_issues_def heading_find_no_h2_issues_def find_hierarchy_issues_def
        find_long_h1_issues_def empty_frame_def)
  show "h1h2_create_sheet empty_frame
       = Some (SuccessSheet (check_mark @ '' Estrutura de H1/H2 adequada!''))"
    by (simp add: h1h2_create_sheet_def find_no_h1_issues_def find_no_h2_issues_def
        find_no_h1_h2_issues_def empty_frame_def)
  show "image_create_sheet fmt empty_frame
       = Some (SuccessSheet (check_mark @ '' Nenhum problema de imagem encontrado!''))"
    by (simp add: image_create_sheet_def find_no_alt_issues_def find_no_src_issues_def
        find_many_images_issues_def find_no_images_issues_def find_dimension_issues_def
        empty_frame_def)
  show "technical_create_sheet empty_frame
       = Some (SuccessSheet (check_mark @ '' Nenhum problema t'' @ [CHR 0xC3, CHR 0xA9]
                             @ ''cnico encontrado!''))"
    by (simp add: technical_create_sheet_def find_canonical_issues_def find_viewport_issues_def
        find_charset_issues_def find_schema_issues_def find_robots_issues_def
        find_favicon_issues_def find_og_issues_def empty_frame_def)
  show "performance_create_sheet fmt empty_frame
       = Some (SuccessSheet (check_mark @ '' Nenhum problema de performance encontrado!''))"
    by (simp add: performance_create_sheet_def find_slow_pages_issues_def
        find_very_slow_pages_issues_def find_heavy_pages_issues_def
        find_resource_heavy_issues_def find_content_efficiency_issues_def empty_frame_def)
qed

theorem empty_input_markers_witness:
  "export_results ''seofrog_output'' ''20240101_120000'' ([] :: (string \<times> string) list list)
       ''crawl.xlsx'' = ([], None)
   \<and> summary_create_sheet (\<lambda>df. []) (\<lambda>count total. ''0.0%'') empty_frame
       = ErrorSheet ''Nenhum dado para resumir''
   \<and> title_create_sheet empty_frame
       = Some (SuccessSheet (check_mark @ '' Nenhum problema de t'' @ [CHR 0xC3, CHR 0xAD]
                             @ ''tulo encontrado!''))
   \<and> image_create_sheet \<lparr>fmt_2f = \<lambda>x. ''0.00'', fmt_1f = \<lambda>x. ''0.0'', fmt_1pct = \<lambda>x. ''0.0%''\<rparr>
         empty_frame
       = Some (SuccessSheet (check_mark @ '' Nenhum problema de imagem encontrado!''))"
  using empty_input_markers[of "''seofrog_output''" "''20240101_120000''" "''crawl.xlsx''"
      "\<lambda>df. []" "\<lambda>count total. ''0.0%''"
      "\<lparr>fmt_2f = \<lambda>x. ''0.00'', fmt_1f = \<lambda>x. ''0.0'', fmt_1pct = \<lambda>x. ''0.0%''\<rparr>"]
  by blast

end
